theory Spec2Isabelle
  imports Main "HOL-Library.Word"
begin

unbundle bit_operations_syntax

section \<open>Outcomes of a call\<close>

text \<open>
  The codec of \<^verbatim>\<open>fields.go\<close> signals failure by \<^verbatim>\<open>panic\<close>; the safe wrappers
  recover the panic and return a \<^verbatim>\<open>*TypeError\<close>. The registry of \<^verbatim>\<open>types.go\<close>
  returns \<^verbatim>\<open>*TypeError\<close> values. Both are branches of the model.

  \<open>panic\<close> lists the explicit \<^verbatim>\<open>panic(...)\<close> sites of \<^verbatim>\<open>fields.go\<close> by their
  message, and \<open>RuntimePanic\<close> stands for a panic raised by the Go runtime or by the
  \<^verbatim>\<open>reflect\<close> package (failed type assertion, index out of range, nil dereference,
  a \<^verbatim>\<open>reflect\<close> operation on a value of the wrong kind).
\<close>

type_synonym byte = "8 word"

datatype panic =
    BoolDecodeError                \<comment> \<open>"Bool decode error: ..."\<close>
  | BoolByteNeither byte           \<comment> \<open>"Bool byte neither 0 nor 1: %v"\<close>
  | FixedSizeEncodeError           \<comment> \<open>"Fixed size encode error: ..."\<close>
  | FixedSizeDecodeError           \<comment> \<open>"Fixed size decode error: ..."\<close>
  | CouldntReadStringLength        \<comment> \<open>"Couldn't read string length: ..."\<close>
  | RuneReadError                  \<comment> \<open>"Rune read error: ..."\<close>
  | CouldntReadSliceLength         \<comment> \<open>"Couldn't read slice length: ..."\<close>
  | CouldntReadKeyCount            \<comment> \<open>"Couldn't read key count: ..."\<close>
  | CouldntReadPtrNilByte          \<comment> \<open>"Couldn't read ptr nil byte: ..."\<close>
  | IncompatibleStructs string string  \<comment> \<open>"Incompatible structs: %s, %s"\<close>
  | UnsupportedEncodeKind byte     \<comment> \<open>"Unsupported encode kind %v"\<close>
  | UnsupportedDecodeKind byte     \<comment> \<open>"Unsupported decode kind %v"\<close>
  | CantCreateMapValue             \<comment> \<open>"Can't create map value for %v"\<close>
  | CantMakeFieldType byte         \<comment> \<open>"Can't make field type for %v"\<close>
  | RuntimePanic

text \<open>
  \<open>error\<close> lists the \<^verbatim>\<open>&TypeError{...}\<close> values the source builds, by their
  format string and its arguments. \<open>UserError\<close> is an error value returned by an
  upgrader.
\<close>

datatype error =
    NoVersionsRegistered string                     \<comment> \<open>"No versions registered for %s"\<close>
  | NoExemplar "16 word"                            \<comment> \<open>"Object version has no exemplar: %d"\<close>
  | VersionNotRegistered "16 word"                  \<comment> \<open>"Version not registered: %d"\<close>
  | ErrorDecodingInitial "16 word" error            \<comment> \<open>"Error decoding initial version %d: %v"\<close>
  | NoUpgrader "16 word" "16 word" "16 word"        \<comment> \<open>"No upgrader for %d -> %d (object version %d)"\<close>
  | UpgraderError error                             \<comment> \<open>"Upgrader error: %v"\<close>
  | EncodingFailed panic                            \<comment> \<open>"Encoding failed: %v"\<close>
  | DecodingFailed panic                            \<comment> \<open>"Decoding failed: %v"\<close>
  | VersionAlreadyExists                            \<comment> \<open>"Version already exists"\<close>
  | UserError string

text \<open>
  The outcome of a call. \<open>Ok\<close>: the call returns normally. \<open>Err\<close>: it returns an
  error value. \<open>Panic\<close>: a panic leaves the call (recovered only by the safe
  wrappers). \<open>Hang\<close>: the recursion does not end within the given fuel.
  \<open>Unmodelled\<close>: the behaviour is fixed by a Go library routine on data this model
  does not follow (\<^verbatim>\<open>binary.Read\<close> and \<^verbatim>\<open>binary.Write\<close> on anything but a single
  sized number, the conversion of a \<^verbatim>\<open>float64\<close> to an integer), or the input is not
  a well-formed Go value (a struct that does not fit its declaration); nothing is
  claimed about such a call. Integers of type \<^verbatim>\<open>int\<close> have 64 bits.
\<close>

datatype 'a res = Ok 'a | Err error | Panic panic | Hang | Unmodelled

fun rbind :: "'a res \<Rightarrow> ('a \<Rightarrow> 'b res) \<Rightarrow> 'b res" where
  "rbind (Ok x) f = f x"
| "rbind (Err e) f = Err e"
| "rbind (Panic p) f = Panic p"
| "rbind Hang f = Hang"
| "rbind Unmodelled f = Unmodelled"

section \<open>Bytes read and written by the Go library\<close>

text \<open>\<^verbatim>\<open>binary.Write(buf, binary.BigEndian, x)\<close> for a \<^verbatim>\<open>uint16\<close>.\<close>

definition be16 :: "16 word \<Rightarrow> byte list" where
  "be16 w = [ucast (drop_bit 8 w), ucast w]"

text \<open>
  \<^verbatim>\<open>binary.Read(buf, binary.BigEndian, &version)\<close> on a \<^verbatim>\<open>bytes.Buffer\<close>, with the
  error ignored as \<^verbatim>\<open>DecodeObj\<close> and \<^verbatim>\<open>DecodeInto\<close> do: with fewer than two bytes
  \<^verbatim>\<open>io.ReadFull\<close> drains the buffer and fails, and \<^verbatim>\<open>version\<close> keeps its zero value.
  The result is the version and the bytes left in the buffer.
\<close>

fun read_version :: "byte list \<Rightarrow> 16 word \<times> byte list" where
  "read_version (a # b # rest) = (push_bit 8 (ucast a) OR ucast b, rest)"
| "read_version _ = (0, [])"

text \<open>The big-endian bytes of the low \<open>n\<close> bytes of a number.\<close>

fun be_bytes :: "nat \<Rightarrow> 64 word \<Rightarrow> byte list" where
  "be_bytes 0 w = []"
| "be_bytes (Suc n) w = ucast (drop_bit (8 * n) w) # be_bytes n w"

text \<open>
  \<^verbatim>\<open>binary.PutUvarint\<close>: seven bits per byte, least significant group first, the top
  bit set on every byte but the last. The argument is a \<^verbatim>\<open>uint64\<close>.
\<close>

function put_uvarint :: "nat \<Rightarrow> byte list" where
  "put_uvarint x = (if x < 128 then [of_nat x]
                    else of_nat (x mod 128 + 128) # put_uvarint (x div 128))"
  by pat_completeness auto
termination
  by (relation "measure id") auto

text \<open>
  \<^verbatim>\<open>binary.ReadUvarint\<close>: at most ten bytes; the tenth may only be 0 or 1; end of
  input and overflow are errors (\<open>None\<close>). \<open>i\<close> counts the bytes read so far, \<open>x\<close>
  is the value so far. The result is the value and the bytes left.
\<close>

fun read_uvarint_from :: "nat \<Rightarrow> nat \<Rightarrow> byte list \<Rightarrow> (nat \<times> byte list) option" where
  "read_uvarint_from i x [] = None"
| "read_uvarint_from i x (b # bs) =
     (if 10 \<le> i then None
      else if b < 128 then
        (if i = 9 \<and> 1 < b then None else Some (x + unat b * 2 ^ (7 * i), bs))
      else read_uvarint_from (Suc i) (x + (unat b - 128) * 2 ^ (7 * i)) bs)"

definition read_uvarint :: "byte list \<Rightarrow> (nat \<times> byte list) option" where
  "read_uvarint bs = read_uvarint_from 0 0 bs"

text \<open>
  \<^verbatim>\<open>bufio.Reader.ReadRune\<close> followed by the \<^verbatim>\<open>string(runes)\<close> conversion, on bytes.
  A well-formed UTF-8 sequence is consumed whole and converts back to itself; any
  other byte is consumed alone, decodes to U+FFFD and converts to \<open>EF BF BD\<close>. The
  result is the bytes the rune contributes to the string, the number of bytes
  consumed, and the bytes left; \<open>None\<close> at end of input.
\<close>

definition cont :: "byte \<Rightarrow> bool" where
  "cont b = (128 \<le> b \<and> b \<le> 191)"

definition rune_error :: "byte list" where
  "rune_error = [239, 191, 189]"

fun read_rune :: "byte list \<Rightarrow> (byte list \<times> nat \<times> byte list) option" where
  "read_rune [] = None"
| "read_rune (b0 # bs) =
     (if b0 < 128 then Some ([b0], 1, bs)
      else if 194 \<le> b0 \<and> b0 \<le> 223 then
        (case bs of
           b1 # r \<Rightarrow> if cont b1 then Some ([b0, b1], 2, r) else Some (rune_error, 1, bs)
         | _ \<Rightarrow> Some (rune_error, 1, bs))
      else if 224 \<le> b0 \<and> b0 \<le> 239 then
        (case bs of
           b1 # b2 # r \<Rightarrow>
             if (if b0 = 224 then 160 \<le> b1 \<and> b1 \<le> 191
                 else if b0 = 237 then 128 \<le> b1 \<and> b1 \<le> 159
                 else cont b1) \<and> cont b2
             then Some ([b0, b1, b2], 3, r) else Some (rune_error, 1, bs)
         | _ \<Rightarrow> Some (rune_error, 1, bs))
      else if 240 \<le> b0 \<and> b0 \<le> 244 then
        (case bs of
           b1 # b2 # b3 # r \<Rightarrow>
             if (if b0 = 240 then 144 \<le> b1 \<and> b1 \<le> 191
                 else if b0 = 244 then 128 \<le> b1 \<and> b1 \<le> 143
                 else cont b1) \<and> cont b2 \<and> cont b3
             then Some ([b0, b1, b2, b3], 4, r) else Some (rune_error, 1, bs)
         | _ \<Rightarrow> Some (rune_error, 1, bs))
      else Some (rune_error, 1, bs))"

text \<open>
  The rune loop of the string case of \<^verbatim>\<open>decodeFieldInner\<close>: runes are read until
  the bytes consumed reach \<open>byteLen\<close>; a rune that straddles the end is read whole.
  \<open>need\<close> is \<open>byteLen - byteCount\<close>.
\<close>

function read_runes :: "nat \<Rightarrow> byte list \<Rightarrow> (byte list \<times> byte list) option" where
  "read_runes need bs =
     (if need = 0 then Some ([], bs)
      else case read_rune bs of
             None \<Rightarrow> None
           | Some (r, n, rest) \<Rightarrow>
               (case read_runes (need - n) rest of
                  None \<Rightarrow> None
                | Some (rs, rest') \<Rightarrow> Some (r @ rs, rest')))"
  by pat_completeness auto
termination
proof (relation "measure (\<lambda>(need, bs). length bs)")
  show "wf (measure (\<lambda>(need, bs). length bs))" by simp
next
  fix need :: nat and bs r :: "byte list" and x :: "byte list \<times> nat \<times> byte list"
    and n :: nat and rest :: "byte list" and y :: "nat \<times> byte list"
  assume "read_rune bs = Some x" and "(r, y) = x" and "(n, rest) = y"
  then have "read_rune bs = Some (r, n, rest)" by simp
  then have "length rest < length bs"
    by (cases bs) (auto split: if_splits list.splits)
  then show "((need - n, rest), (need, bs)) \<in> measure (\<lambda>(need, bs). length bs)" by simp
qed

section \<open>Go types and values\<close>

text \<open>
  The codec works by reflection, so the model carries Go's types and dynamically
  typed values. \<open>basic\<close> are the named basic types, with their \<^verbatim>\<open>reflect.Kind\<close>
  numbers in \<open>kind_code\<close>. A struct type is identified by the key the source
  computes for it, \<^verbatim>\<open>typ.PkgPath() + "/" + typ.Name()\<close>; its declaration (field
  name, whether the field is tagged \<^verbatim>\<open>spack:"ignore"\<close>, field type) is looked up in
  a type environment. Arrays, channels, functions and defined non-struct types are
  outside the model.
\<close>

datatype basic =
    KBool | KInt | KInt8 | KInt16 | KInt32 | KInt64
  | KUint | KUint8 | KUint16 | KUint32 | KUint64 | KUintptr
  | KFloat32 | KFloat64 | KComplex64 | KComplex128 | KString

fun kind_code :: "basic \<Rightarrow> byte" where
  "kind_code KBool = 1" | "kind_code KInt = 2" | "kind_code KInt8 = 3"
| "kind_code KInt16 = 4" | "kind_code KInt32 = 5" | "kind_code KInt64 = 6"
| "kind_code KUint = 7" | "kind_code KUint8 = 8" | "kind_code KUint16 = 9"
| "kind_code KUint32 = 10" | "kind_code KUint64 = 11" | "kind_code KUintptr = 12"
| "kind_code KFloat32 = 13" | "kind_code KFloat64 = 14" | "kind_code KComplex64 = 15"
| "kind_code KComplex128 = 16" | "kind_code KString = 24"

fun basic_name :: "basic \<Rightarrow> string" where
  "basic_name KBool = ''bool''" | "basic_name KInt = ''int''" | "basic_name KInt8 = ''int8''"
| "basic_name KInt16 = ''int16''" | "basic_name KInt32 = ''int32''"
| "basic_name KInt64 = ''int64''" | "basic_name KUint = ''uint''"
| "basic_name KUint8 = ''uint8''" | "basic_name KUint16 = ''uint16''"
| "basic_name KUint32 = ''uint32''" | "basic_name KUint64 = ''uint64''"
| "basic_name KUintptr = ''uintptr''" | "basic_name KFloat32 = ''float32''"
| "basic_name KFloat64 = ''float64''" | "basic_name KComplex64 = ''complex64''"
| "basic_name KComplex128 = ''complex128''" | "basic_name KString = ''string''"

text \<open>The byte width of the sized numeric types; \<open>None\<close> for the other basic types.\<close>

fun fixed_size :: "basic \<Rightarrow> nat option" where
  "fixed_size KInt8 = Some 1" | "fixed_size KUint8 = Some 1"
| "fixed_size KInt16 = Some 2" | "fixed_size KUint16 = Some 2"
| "fixed_size KInt32 = Some 4" | "fixed_size KUint32 = Some 4"
| "fixed_size KInt64 = Some 8" | "fixed_size KUint64 = Some 8"
| "fixed_size KFloat32 = Some 4" | "fixed_size KFloat64 = Some 8"
| "fixed_size KComplex64 = Some 8" | "fixed_size KComplex128 = Some 16"
| "fixed_size _ = None"

datatype gtype =
    TBasic basic
  | TSlice gtype
  | TMap gtype gtype
  | TPtr gtype
  | TStruct string
  | TIface                         \<comment> \<open>\<^verbatim>\<open>interface{}\<close>\<close>

type_synonym sfield = "string \<times> bool \<times> gtype"
type_synonym tenv = "string \<rightharpoonup> sfield list"

text \<open>\<^verbatim>\<open>t.PkgPath() + "/" + t.Name()\<close>: basic types have a name and no package path,
  the composite types and \<^verbatim>\<open>interface{}\<close> have neither.\<close>

fun type_name :: "gtype \<Rightarrow> string" where
  "type_name (TStruct n) = n"
| "type_name (TBasic b) = ''/'' @ basic_name b"
| "type_name _ = ''/''"

text \<open>
  A Go value with its dynamic type. \<open>VNil\<close> is the nil interface. \<open>VInt\<close> is a Go
  \<^verbatim>\<open>int\<close> (64 bits). \<open>VNum k bs\<close> is a number of any other numeric type \<open>k\<close>, held as
  its big-endian bytes (for floats and complex numbers the IEEE-754 bit patterns,
  which the codec copies and never inspects). A string is its bytes. Slices, maps
  and pointers carry their element types; \<open>None\<close> is the nil slice, nil map or nil
  pointer. A map is the list of its entries in iteration order (Go leaves that order
  open; the model fixes it). A pointer holds the value it points to: values are trees,
  sharing is not modelled. A struct value lists its field values in declaration order.
\<close>

datatype gval =
    VNil
  | VBool bool
  | VInt "64 word"
  | VNum basic "byte list"
  | VStr string
  | VSlice gtype "gval list option"
  | VMap gtype gtype "(gval \<times> gval) list option"
  | VPtr gtype "gval option"
  | VStruct string "gval list"

fun type_of :: "gval \<Rightarrow> gtype option" where
  "type_of VNil = None"
| "type_of (VBool b) = Some (TBasic KBool)"
| "type_of (VInt i) = Some (TBasic KInt)"
| "type_of (VNum k bs) = Some (TBasic k)"
| "type_of (VStr s) = Some (TBasic KString)"
| "type_of (VSlice t xs) = Some (TSlice t)"
| "type_of (VMap k v m) = Some (TMap k v)"
| "type_of (VPtr t p) = Some (TPtr t)"
| "type_of (VStruct n fs) = Some (TStruct n)"

text \<open>\<^verbatim>\<open>map[string]interface{}\<close>, the attribute map.\<close>

abbreviation attr_type :: gtype where
  "attr_type \<equiv> TMap (TBasic KString) TIface"

definition attr_map :: "(string \<times> gval) list \<Rightarrow> gval" where
  "attr_map kvs = VMap (TBasic KString) TIface (Some (map (\<lambda>(k, v). (VStr k, v)) kvs))"

text \<open>The entries of a map value, and \<^verbatim>\<open>m[key]\<close> (nil when absent or when \<open>m\<close> is nil).\<close>

fun entries :: "(gval \<times> gval) list option \<Rightarrow> (gval \<times> gval) list" where
  "entries None = []"
| "entries (Some kvs) = kvs"

definition map_index :: "(gval \<times> gval) list option \<Rightarrow> gval \<Rightarrow> gval" where
  "map_index m k = (case map_of (entries m) k of None \<Rightarrow> VNil | Some v \<Rightarrow> v)"

text \<open>\<^verbatim>\<open>m[k] = v\<close> on a non-nil map: an existing key keeps its place.\<close>

fun set_map_index :: "(gval \<times> gval) list \<Rightarrow> gval \<Rightarrow> gval \<Rightarrow> (gval \<times> gval) list" where
  "set_map_index [] k v = [(k, v)]"
| "set_map_index ((k', v') # kvs) k v =
     (if k' = k then (k, v) # kvs else (k', v') # set_map_index kvs k v)"

text \<open>
  The zero value of a type, as \<^verbatim>\<open>reflect.New\<close> allocates it. A struct's fields are
  zeroed in turn; the fuel bounds the nesting of struct declarations, which is finite
  for every type Go accepts. A struct key the environment does not declare is outside
  the model.
\<close>

fun zero :: "nat \<Rightarrow> tenv \<Rightarrow> gtype \<Rightarrow> gval res"
and zeros :: "nat \<Rightarrow> tenv \<Rightarrow> sfield list \<Rightarrow> gval list res" where
  "zero n env (TBasic KBool) = Ok (VBool False)"
| "zero n env (TBasic KInt) = Ok (VInt 0)"
| "zero n env (TBasic KString) = Ok (VStr [])"
| "zero n env (TBasic k) =
     Ok (VNum k (replicate (case fixed_size k of None \<Rightarrow> 8 | Some w \<Rightarrow> w) 0))"
| "zero n env (TSlice t) = Ok (VSlice t None)"
| "zero n env (TMap k v) = Ok (VMap k v None)"
| "zero n env (TPtr t) = Ok (VPtr t None)"
| "zero n env TIface = Ok VNil"
| "zero 0 env (TStruct name) = Hang"
| "zero (Suc n) env (TStruct name) =
     (case env name of
        None \<Rightarrow> Unmodelled
      | Some decl \<Rightarrow> rbind (zeros n env decl) (\<lambda>vs. Ok (VStruct name vs)))"
| "zeros n env [] = Ok []"
| "zeros n env ((fname, ign, t) # fs) =
     rbind (zero n env t) (\<lambda>v. rbind (zeros n env fs) (\<lambda>vs. Ok (v # vs)))"

text \<open>An exported field name starts with an upper-case letter (ASCII names only).\<close>

definition exported :: "string \<Rightarrow> bool" where
  "exported name = (case name of [] \<Rightarrow> False
                    | c # _ \<Rightarrow> 65 \<le> (of_char c :: nat) \<and> (of_char c :: nat) \<le> 90)"

section \<open>Type specs\<close>

text \<open>
  \<^verbatim>\<open>fieldType\<close>, \<^verbatim>\<open>structMap\<close> and \<^verbatim>\<open>TypeSpec\<close> of \<^verbatim>\<open>fields.go\<close>. \<open>Kind\<close> is the
  \<^verbatim>\<open>uint8\<close> the source stores. A struct table entry can be the nil pointer
  (\<open>Some None\<close>), the sentinel \<^verbatim>\<open>makeFieldType\<close> installs.
\<close>

datatype fieldType =
  FieldType (Kind: byte) (Elem: "fieldType list") (Label: string) (StructName: string)

type_synonym structMap = "string \<rightharpoonup> fieldType option"

record TypeSpec =
  Structs :: structMap
  Top :: fieldType

definition IGNORED_FIELD :: byte where "IGNORED_FIELD = 254"
definition STRUCT_REFERENCE :: byte where "STRUCT_REFERENCE = 255"

text \<open>The cases of the \<^verbatim>\<open>switch reflect.Kind(ft.Kind)\<close> of the encoder and decoder.\<close>

datatype kcase =
    CFixed basic | CBool | CString | CSlice | CMap | CPtr | CIgnored | CStructRef | CDefault

definition kind_case :: "byte \<Rightarrow> kcase" where
  "kind_case k =
    (if k = 3 then CFixed KInt8 else if k = 4 then CFixed KInt16
     else if k = 5 then CFixed KInt32 else if k = 6 then CFixed KInt64
     else if k = 8 then CFixed KUint8 else if k = 9 then CFixed KUint16
     else if k = 10 then CFixed KUint32 else if k = 11 then CFixed KUint64
     else if k = 13 then CFixed KFloat32 else if k = 14 then CFixed KFloat64
     else if k = 15 then CFixed KComplex64 else if k = 16 then CFixed KComplex128
     else if k = 1 then CBool
     else if k = 24 then CString
     else if k = 23 then CSlice
     else if k = 21 then CMap
     else if k = 22 then CPtr
     else if k = IGNORED_FIELD then CIgnored
     else if k = STRUCT_REFERENCE then CStructRef
     else CDefault)"

text \<open>\<^verbatim>\<open>ft.Elem[i]\<close>: an index out of range is a runtime panic.\<close>

definition elem_at :: "fieldType \<Rightarrow> nat \<Rightarrow> fieldType res" where
  "elem_at ft i = (if i < length (Elem ft) then Ok (Elem ft ! i) else Panic RuntimePanic)"

text \<open>\<^verbatim>\<open>structs[name].Elem\<close>: a missing or nil entry is a nil dereference.\<close>

definition struct_elems :: "structMap \<Rightarrow> string \<Rightarrow> fieldType list res" where
  "struct_elems structs name =
     (case structs name of Some (Some body) \<Rightarrow> Ok (Elem body) | _ \<Rightarrow> Panic RuntimePanic)"

text \<open>
  \<^verbatim>\<open>reflect.Indirect(reflect.ValueOf(field))\<close> as the struct-reference cases use it:
  the static type and the content of the value reached, \<open>None\<close> for the invalid
  \<^verbatim>\<open>reflect.Value\<close> (of the nil interface or behind a nil pointer). The flag tells
  whether the value is addressable (reached through a pointer).
\<close>

fun indirect :: "gval \<Rightarrow> (gtype \<times> gval \<times> bool) option" where
  "indirect VNil = None"
| "indirect (VPtr t None) = None"
| "indirect (VPtr t (Some v)) = Some (t, v, True)"
| "indirect v = (case type_of v of None \<Rightarrow> None | Some t \<Rightarrow> Some (t, v, False))"

text \<open>
  The fields of a struct value paired with their declarations; the empty list for
  a value that is not a struct, on which \<^verbatim>\<open>val.Field(i)\<close> panics as it does for an
  index past the last field. A struct value that does not fit its declaration is
  outside the model.
\<close>

definition struct_fields :: "tenv \<Rightarrow> gtype \<Rightarrow> gval \<Rightarrow> (sfield \<times> gval) list res" where
  "struct_fields env t v =
     (case t of
        TStruct name \<Rightarrow>
          (case (env name, v) of
             (Some decl, VStruct name' vs) \<Rightarrow>
               if name' = name \<and> length vs = length decl then Ok (zip decl vs) else Unmodelled
           | _ \<Rightarrow> Unmodelled)
      | _ \<Rightarrow> Ok [])"

section \<open>The encoder\<close>

text \<open>
  \<^verbatim>\<open>convertIntToFixedSize\<close>: a Go \<^verbatim>\<open>int\<close> is narrowed to the integer kind of the
  spec by Go's conversion (the low bytes are kept); for the other kinds the value is
  left as it is.
\<close>

fun convertIntToFixedSize :: "64 word \<Rightarrow> basic \<Rightarrow> gval" where
  "convertIntToFixedSize i KInt8 = VNum KInt8 (be_bytes 1 i)"
| "convertIntToFixedSize i KInt16 = VNum KInt16 (be_bytes 2 i)"
| "convertIntToFixedSize i KInt32 = VNum KInt32 (be_bytes 4 i)"
| "convertIntToFixedSize i KInt64 = VNum KInt64 (be_bytes 8 i)"
| "convertIntToFixedSize i KUint8 = VNum KUint8 (be_bytes 1 i)"
| "convertIntToFixedSize i KUint16 = VNum KUint16 (be_bytes 2 i)"
| "convertIntToFixedSize i KUint32 = VNum KUint32 (be_bytes 4 i)"
| "convertIntToFixedSize i KUint64 = VNum KUint64 (be_bytes 8 i)"
| "convertIntToFixedSize i k = VInt i"

text \<open>
  \<^verbatim>\<open>binary.Write(writer, binary.BigEndian, field)\<close>: a sized number is written as its
  big-endian bytes; a Go \<^verbatim>\<open>int\<close>, \<^verbatim>\<open>uint\<close> or \<^verbatim>\<open>uintptr\<close>, a string and a map are
  refused with an error, which the caller turns into a panic. What the library does
  with any other value is not modelled.
\<close>

fun binary_write :: "gval \<Rightarrow> byte list res" where
  "binary_write (VNum k bs) =
     (case fixed_size k of
        None \<Rightarrow> Panic FixedSizeEncodeError
      | Some w \<Rightarrow> if length bs = w then Ok bs else Unmodelled)"
| "binary_write (VInt i) = Panic FixedSizeEncodeError"
| "binary_write (VStr s) = Panic FixedSizeEncodeError"
| "binary_write (VMap k v m) = Panic FixedSizeEncodeError"
| "binary_write _ = Unmodelled"

text \<open>
  \<^verbatim>\<open>encodeFixedSize\<close>: the type switch converts a Go \<^verbatim>\<open>int\<close>; a \<^verbatim>\<open>float64\<close> met at
  an integer kind is converted through floating point and is not modelled, at the
  other kinds \<^verbatim>\<open>convertFloatToFixedSize\<close> leaves it as it is.
\<close>

definition int_kind :: "basic \<Rightarrow> bool" where
  "int_kind k = (k \<in> {KInt8, KInt16, KInt32, KInt64, KUint8, KUint16, KUint32, KUint64})"

fun encodeFixedSize :: "gval \<Rightarrow> basic \<Rightarrow> byte list res" where
  "encodeFixedSize (VInt i) kind = binary_write (convertIntToFixedSize i kind)"
| "encodeFixedSize (VNum KFloat64 bs) kind =
     (if int_kind kind then Unmodelled else binary_write (VNum KFloat64 bs))"
| "encodeFixedSize field kind = binary_write field"

text \<open>\<^verbatim>\<open>writeLength\<close>: the length as an unsigned varint.\<close>

definition writeLength :: "nat \<Rightarrow> byte list" where
  "writeLength n = put_uvarint n"

text \<open>
  \<^verbatim>\<open>encodeFieldInner\<close>. The result is the bytes written to the writer, which is a
  \<^verbatim>\<open>bufio.Writer\<close> over a \<^verbatim>\<open>bytes.Buffer\<close> and never fails. The loops of the
  function come first; \<open>enc\<close> is the recursive call of \<^verbatim>\<open>encodeFieldInner\<close>.
\<close>

type_synonym encoder = "gval \<Rightarrow> fieldType \<Rightarrow> byte list res"

text \<open>The slice case: \<^verbatim>\<open>encodeFieldInner(val.Index(i).Interface(), ft.Elem[0], ...)\<close>.\<close>

fun encode_elems :: "encoder \<Rightarrow> gval list \<Rightarrow> fieldType \<Rightarrow> byte list res" where
  "encode_elems enc [] ft = Ok []"
| "encode_elems enc (v # vs) ft =
     rbind (elem_at ft 0) (\<lambda>e.
     rbind (enc v e) (\<lambda>bs.
     rbind (encode_elems enc vs ft) (\<lambda>bs'. Ok (bs @ bs'))))"

text \<open>The map case: each key against \<^verbatim>\<open>ft.Elem[0]\<close>, its value against
  \<^verbatim>\<open>ft.Elem[1]\<close>.\<close>

fun encode_entries :: "encoder \<Rightarrow> (gval \<times> gval) list \<Rightarrow> fieldType \<Rightarrow> byte list res" where
  "encode_entries enc [] ft = Ok []"
| "encode_entries enc ((key, value) # kvs) ft =
     rbind (elem_at ft 0) (\<lambda>ke.
     rbind (enc key ke) (\<lambda>bs.
     rbind (elem_at ft 1) (\<lambda>ve.
     rbind (enc value ve) (\<lambda>bs'.
     rbind (encode_entries enc kvs ft) (\<lambda>bs''. Ok (bs @ bs' @ bs''))))))"

text \<open>The struct reference case on an attribute map: the fields of the struct body
  in order, each looked up in the map by its label, ignored fields skipped.\<close>

fun encode_map_fields ::
  "encoder \<Rightarrow> (gval \<times> gval) list option \<Rightarrow> fieldType list \<Rightarrow> byte list res" where
  "encode_map_fields enc mapVal [] = Ok []"
| "encode_map_fields enc mapVal (fieldFt # fts) =
     (if Kind fieldFt = IGNORED_FIELD then encode_map_fields enc mapVal fts
      else
        rbind (enc (map_index mapVal (VStr (Label fieldFt))) fieldFt) (\<lambda>bs.
        rbind (encode_map_fields enc mapVal fts) (\<lambda>bs'. Ok (bs @ bs'))))"

text \<open>
  The struct reference case on a struct: field \<open>i\<close> of the body is encoded from
  field \<open>i\<close> of the value. \<^verbatim>\<open>val.Field(i)\<close> panics past the last field, and
  \<^verbatim>\<open>Interface()\<close> panics on an unexported field.
\<close>

fun encode_struct_fields ::
  "encoder \<Rightarrow> (sfield \<times> gval) list \<Rightarrow> fieldType list \<Rightarrow> byte list res" where
  "encode_struct_fields enc fvs [] = Ok []"
| "encode_struct_fields enc fvs (fieldFt # fts) =
     (if Kind fieldFt = IGNORED_FIELD then encode_struct_fields enc (tl fvs) fts
      else
        (case fvs of
           [] \<Rightarrow> Panic RuntimePanic
         | ((fname, ign, t), v) # rest \<Rightarrow>
             if \<not> exported fname then Panic RuntimePanic
             else
               rbind (enc v fieldFt) (\<lambda>bs.
               rbind (encode_struct_fields enc rest fts) (\<lambda>bs'. Ok (bs @ bs')))))"

definition encode_bool :: "gval \<Rightarrow> byte list res" where
  "encode_bool field =
     (case field of
        VBool b \<Rightarrow> Ok [if b then 1 else 0]
      | _ \<Rightarrow> Panic RuntimePanic)"

definition encode_string :: "gval \<Rightarrow> byte list res" where
  "encode_string field =
     (case field of
        VStr str \<Rightarrow> Ok (writeLength (length str) @ map of_char str)
      | _ \<Rightarrow> Panic RuntimePanic)"

text \<open>\<^verbatim>\<open>val.Len()\<close> and \<^verbatim>\<open>val.Index(i)\<close> accept a slice and a string (whose elements
  are bytes); \<^verbatim>\<open>Len\<close> accepts a map, \<^verbatim>\<open>Index\<close> does not.\<close>

definition encode_slice :: "encoder \<Rightarrow> gval \<Rightarrow> fieldType \<Rightarrow> byte list res" where
  "encode_slice enc field ft =
     (case field of
        VSlice t xs \<Rightarrow>
          (let vs = (case xs of None \<Rightarrow> [] | Some l \<Rightarrow> l) in
           rbind (encode_elems enc vs ft) (\<lambda>bs. Ok (writeLength (length vs) @ bs)))
      | VStr str \<Rightarrow>
          rbind (encode_elems enc (map (\<lambda>c. VNum KUint8 [of_char c]) str) ft)
            (\<lambda>bs. Ok (writeLength (length str) @ bs))
      | VMap kt vt m \<Rightarrow> if entries m = [] then Ok (writeLength 0) else Panic RuntimePanic
      | _ \<Rightarrow> Panic RuntimePanic)"

text \<open>\<^verbatim>\<open>val.MapKeys()\<close> panics on anything but a map.\<close>

definition encode_map :: "encoder \<Rightarrow> gval \<Rightarrow> fieldType \<Rightarrow> byte list res" where
  "encode_map enc field ft =
     (case field of
        VMap kt vt m \<Rightarrow>
          rbind (encode_entries enc (entries m) ft)
            (\<lambda>bs. Ok (writeLength (length (entries m)) @ bs))
      | _ \<Rightarrow> Panic RuntimePanic)"

text \<open>
  The pointer case: the nil interface and a nil pointer, slice or map write \<open>00\<close>
  (\<^verbatim>\<open>IsNil\<close> panics on the kinds that cannot be nil); anything else writes \<open>01\<close> and
  the payload, which is the value pointed to for a pointer and the value itself
  otherwise.
\<close>

definition encode_ptr :: "encoder \<Rightarrow> gval \<Rightarrow> fieldType \<Rightarrow> byte list res" where
  "encode_ptr enc field ft =
     (case field of
        VNil \<Rightarrow> Ok [0]
      | VPtr t None \<Rightarrow> Ok [0]
      | VPtr t (Some v) \<Rightarrow>
          rbind (elem_at ft 0) (\<lambda>e. rbind (enc v e) (\<lambda>bs. Ok (1 # bs)))
      | VSlice t None \<Rightarrow> Ok [0]
      | VSlice t (Some xs) \<Rightarrow>
          rbind (elem_at ft 0) (\<lambda>e. rbind (enc field e) (\<lambda>bs. Ok (1 # bs)))
      | VMap kt vt None \<Rightarrow> Ok [0]
      | VMap kt vt (Some m) \<Rightarrow>
          rbind (elem_at ft 0) (\<lambda>e. rbind (enc field e) (\<lambda>bs. Ok (1 # bs)))
      | _ \<Rightarrow> Panic RuntimePanic)"

text \<open>
  The struct reference case. A value of map kind must be a
  \<^verbatim>\<open>map[string]interface{}\<close> (the type assertion panics otherwise); any other value
  must have the struct identity the spec names.
\<close>

definition encode_struct_ref ::
  "encoder \<Rightarrow> tenv \<Rightarrow> gval \<Rightarrow> fieldType \<Rightarrow> structMap \<Rightarrow> byte list res" where
  "encode_struct_ref enc env field ft structs =
     (case indirect field of
        None \<Rightarrow> Panic RuntimePanic
      | Some (t, v, addressable) \<Rightarrow>
          (case t of
             TMap kt vt \<Rightarrow>
               (case v of
                  VMap kt' vt' m \<Rightarrow>
                    if kt = TBasic KString \<and> vt = TIface then
                      rbind (struct_elems structs (StructName ft)) (\<lambda>fts.
                        encode_map_fields enc m fts)
                    else Panic RuntimePanic
                | _ \<Rightarrow> Unmodelled)
           | _ \<Rightarrow>
               if type_name t \<noteq> StructName ft
               then Panic (IncompatibleStructs (type_name t) (StructName ft))
               else
                 rbind (struct_elems structs (StructName ft)) (\<lambda>fts.
                 rbind (struct_fields env t v) (\<lambda>fvs.
                   encode_struct_fields enc fvs fts))))"

text \<open>The body of \<^verbatim>\<open>encodeFieldInner\<close>: the switch on the kind of the spec node.\<close>

definition encode_case ::
  "encoder \<Rightarrow> tenv \<Rightarrow> gval \<Rightarrow> fieldType \<Rightarrow> structMap \<Rightarrow> byte list res" where
  "encode_case enc env field ft structs =
    (case kind_case (Kind ft) of
       CFixed k \<Rightarrow> encodeFixedSize field k
     | CBool \<Rightarrow> encode_bool field
     | CString \<Rightarrow> encode_string field
     | CSlice \<Rightarrow> encode_slice enc field ft
     | CMap \<Rightarrow> encode_map enc field ft
     | CPtr \<Rightarrow> encode_ptr enc field ft
     | CIgnored \<Rightarrow> Ok []
     | CStructRef \<Rightarrow> encode_struct_ref enc env field ft structs
     | CDefault \<Rightarrow> Panic (UnsupportedEncodeKind (Kind ft)))"

text \<open>The recursion, bounded by fuel: \<open>n\<close> is the depth of calls allowed.\<close>

primrec encodeFieldInner ::
  "nat \<Rightarrow> tenv \<Rightarrow> structMap \<Rightarrow> gval \<Rightarrow> fieldType \<Rightarrow> byte list res" where
  "encodeFieldInner 0 env structs = (\<lambda>field ft. Hang)"
| "encodeFieldInner (Suc n) env structs =
     (\<lambda>field ft. encode_case (encodeFieldInner n env structs) env field ft structs)"

text \<open>\<^verbatim>\<open>SafeEncodeField\<close>: a panic of the encoder is recovered and returned as an
  error.\<close>

definition SafeEncodeField :: "nat \<Rightarrow> tenv \<Rightarrow> gval \<Rightarrow> TypeSpec \<Rightarrow> byte list res" where
  "SafeEncodeField n env field ts =
     (case encodeFieldInner n env (Structs ts) field (Top ts) of
        Panic e \<Rightarrow> Err (EncodingFailed e)
      | r \<Rightarrow> r)"

section \<open>The decoder\<close>

text \<open>
  The decoder writes through its target: a pointer to a slot, or a map. The model
  passes the target as a value (a non-nil pointer \<open>VPtr t (Some cur)\<close> is the slot of
  static type \<open>t\<close> holding \<open>cur\<close>) and returns it as the call leaves it, with the
  bytes left in the reader. When a call panics, what it had written so far is not
  kept. The limits of allocation are not modelled.
\<close>

type_synonym decoder = "gval \<Rightarrow> fieldType \<Rightarrow> byte list \<Rightarrow> (gval \<times> byte list) res"

text \<open>\<^verbatim>\<open>reflect.New(t).Interface()\<close>: a pointer to a fresh zero value.\<close>

definition new_value :: "nat \<Rightarrow> tenv \<Rightarrow> gtype \<Rightarrow> gval res" where
  "new_value n env t = rbind (zero n env t) (\<lambda>z. Ok (VPtr t (Some z)))"

text \<open>\<^verbatim>\<open>createMapValue\<close>: a pointer to a fresh cell for the kind of the spec node.\<close>

fun createMapValue :: "fieldType \<Rightarrow> gval res" where
  "createMapValue (FieldType k es l s) =
     (case kind_case k of
        CFixed b \<Rightarrow>
          Ok (VPtr (TBasic b) (Some (VNum b (replicate (case fixed_size b of None \<Rightarrow> 0 | Some w \<Rightarrow> w) 0))))
      | CBool \<Rightarrow> Ok (VPtr (TBasic KBool) (Some (VBool False)))
      | CString \<Rightarrow> Ok (VPtr (TBasic KString) (Some (VStr [])))
      | CSlice \<Rightarrow> Ok (VPtr (TSlice TIface) (Some (VSlice TIface (Some []))))
      | CMap \<Rightarrow> Ok (VPtr (TMap TIface TIface) (Some (VMap TIface TIface (Some []))))
      | CPtr \<Rightarrow> (case es of [] \<Rightarrow> Panic RuntimePanic | e # _ \<Rightarrow> createMapValue e)
      | CStructRef \<Rightarrow> Ok (VPtr attr_type (Some (VMap (TBasic KString) TIface (Some []))))
      | _ \<Rightarrow> Panic CantCreateMapValue)"

text \<open>The value a pointer returned by a decoder call points to.\<close>

fun pointee :: "gval \<Rightarrow> gval res" where
  "pointee (VPtr t (Some v)) = Ok v"
| "pointee _ = Unmodelled"

text \<open>
  \<^verbatim>\<open>binary.Read(reader, binary.BigEndian, field)\<close>: into a pointer to a sized number
  it reads the bytes of its width, and fails when the input is shorter; a pointer to
  any other basic type but bool, to a map, a pointer or an interface, and a value
  that is neither a pointer nor a slice are refused with an error. The caller turns
  the error into a panic. What the library does with any other target is not
  modelled.
\<close>

fun binary_read :: "gval \<Rightarrow> byte list \<Rightarrow> (gval \<times> byte list) res" where
  "binary_read (VPtr (TBasic k) (Some cur)) bs =
     (case fixed_size k of
        Some w \<Rightarrow>
          if w \<le> length bs then Ok (VPtr (TBasic k) (Some (VNum k (take w bs))), drop w bs)
          else Panic FixedSizeDecodeError
      | None \<Rightarrow> if k = KBool then Unmodelled else Panic FixedSizeDecodeError)"
| "binary_read (VPtr (TMap kt vt) (Some cur)) bs = Panic FixedSizeDecodeError"
| "binary_read (VPtr (TPtr t) (Some cur)) bs = Panic FixedSizeDecodeError"
| "binary_read (VPtr TIface (Some cur)) bs = Panic FixedSizeDecodeError"
| "binary_read (VPtr t p) bs = Unmodelled"
| "binary_read (VSlice t xs) bs = Unmodelled"
| "binary_read VNil bs = Unmodelled"
| "binary_read v bs = Panic FixedSizeDecodeError"

text \<open>
  The bool case: one byte; \<open>00\<close> and \<open>01\<close> are stored through the target, which
  must be a \<^verbatim>\<open>*bool\<close>; any other byte panics before the target is looked at.
\<close>

definition decode_bool :: "gval \<Rightarrow> byte list \<Rightarrow> (gval \<times> byte list) res" where
  "decode_bool field bs =
     (case bs of
        [] \<Rightarrow> Panic BoolDecodeError
      | b # rest \<Rightarrow>
          if b = 0 \<or> b = 1 then
            (case field of
               VPtr (TBasic KBool) (Some cur) \<Rightarrow> Ok (VPtr (TBasic KBool) (Some (VBool (b = 1))), rest)
             | _ \<Rightarrow> Panic RuntimePanic)
          else Panic (BoolByteNeither b))"

definition decode_string :: "gval \<Rightarrow> byte list \<Rightarrow> (gval \<times> byte list) res" where
  "decode_string field bs =
     (case read_uvarint bs of
        None \<Rightarrow> Panic CouldntReadStringLength
      | Some (byteLen, bs') \<Rightarrow>
          (case read_runes byteLen bs' of
             None \<Rightarrow> Panic RuneReadError
           | Some (str, rest) \<Rightarrow>
               (case field of
                  VPtr (TBasic KString) (Some cur) \<Rightarrow>
                    Ok (VPtr (TBasic KString) (Some (VStr (map (\<lambda>b. char_of (unat b)) str))), rest)
                | _ \<Rightarrow> Panic RuntimePanic)))"

text \<open>
  The loop of the slice case, \<open>cnt\<close> elements: each element is decoded into a
  fresh cell (\<^verbatim>\<open>createMapValue\<close> when the element type is \<^verbatim>\<open>interface{}\<close>,
  \<^verbatim>\<open>reflect.New\<close> otherwise) and appended.
\<close>

fun decode_elems ::
  "decoder \<Rightarrow> nat \<Rightarrow> tenv \<Rightarrow> gtype \<Rightarrow> nat \<Rightarrow> fieldType \<Rightarrow> byte list \<Rightarrow> (gval list \<times> byte list) res"
where
  "decode_elems dec n env elemt 0 ft bs = Ok ([], bs)"
| "decode_elems dec n env elemt (Suc cnt) ft bs =
     rbind (elem_at ft 0) (\<lambda>e.
     rbind (if elemt = TIface then createMapValue e else new_value n env elemt) (\<lambda>elemp.
     rbind (dec elemp e bs) (\<lambda>(elemp', bs').
     rbind (pointee elemp') (\<lambda>v.
     rbind (decode_elems dec n env elemt cnt ft bs') (\<lambda>(vs, rest). Ok (v # vs, rest))))))"

text \<open>
  The slice case. \<^verbatim>\<open>int(elemCount64)\<close> is negative from \<open>2^63\<close> on, and
  \<^verbatim>\<open>Slice(0, elemCount)\<close> panics then. The target must be a pointer to a slice:
  \<^verbatim>\<open>Elem\<close>, \<^verbatim>\<open>Type().Elem()\<close> or \<^verbatim>\<open>Slice\<close> panics on anything else. With no
  elements a nil slice stays nil.
\<close>

definition decode_slice ::
  "decoder \<Rightarrow> nat \<Rightarrow> tenv \<Rightarrow> gval \<Rightarrow> fieldType \<Rightarrow> byte list \<Rightarrow> (gval \<times> byte list) res" where
  "decode_slice dec n env field ft bs =
     (case read_uvarint bs of
        None \<Rightarrow> Panic CouldntReadSliceLength
      | Some (elemCount, bs') \<Rightarrow>
          (case field of
             VPtr (TSlice elemt) (Some cur) \<Rightarrow>
               if 2 ^ 63 \<le> elemCount then Panic RuntimePanic
               else
                 (case cur of
                    VSlice elemt' xs \<Rightarrow>
                      rbind (decode_elems dec n env elemt elemCount ft bs') (\<lambda>(vs, rest).
                        Ok (VPtr (TSlice elemt)
                              (Some (VSlice elemt (if elemCount = 0 \<and> xs = None then None
                                                    else Some vs))), rest))
                  | _ \<Rightarrow> Unmodelled)
           | _ \<Rightarrow> Panic RuntimePanic))"

text \<open>The loop of the map case: a fresh key and a fresh value per entry.\<close>

fun decode_entries ::
  "decoder \<Rightarrow> nat \<Rightarrow> tenv \<Rightarrow> gtype \<Rightarrow> gtype \<Rightarrow> nat \<Rightarrow> fieldType \<Rightarrow> (gval \<times> gval) list
     \<Rightarrow> byte list \<Rightarrow> ((gval \<times> gval) list \<times> byte list) res"
where
  "decode_entries dec n env keyt valt 0 ft m bs = Ok (m, bs)"
| "decode_entries dec n env keyt valt (Suc cnt) ft m bs =
     rbind (new_value n env keyt) (\<lambda>keyp.
     rbind (elem_at ft 0) (\<lambda>ke.
     rbind (dec keyp ke bs) (\<lambda>(keyp', bs').
     rbind (new_value n env valt) (\<lambda>valp.
     rbind (elem_at ft 1) (\<lambda>ve.
     rbind (dec valp ve bs') (\<lambda>(valp', bs'').
     rbind (pointee keyp') (\<lambda>k.
     rbind (pointee valp') (\<lambda>v.
       decode_entries dec n env keyt valt cnt ft (set_map_index m k v) bs''))))))))"

text \<open>
  The map case. The target must be a pointer to a map (\<^verbatim>\<open>Elem\<close>, \<^verbatim>\<open>IsNil\<close>,
  \<^verbatim>\<open>MakeMap\<close> or \<^verbatim>\<open>Type().Key()\<close> panics on anything else); a nil map is replaced
  by an empty one. A count from \<open>2^63\<close> on is negative as an \<^verbatim>\<open>int\<close> and the loop
  does not run.
\<close>

definition decode_map ::
  "decoder \<Rightarrow> nat \<Rightarrow> tenv \<Rightarrow> gval \<Rightarrow> fieldType \<Rightarrow> byte list \<Rightarrow> (gval \<times> byte list) res" where
  "decode_map dec n env field ft bs =
     (case read_uvarint bs of
        None \<Rightarrow> Panic CouldntReadKeyCount
      | Some (keyCount, bs') \<Rightarrow>
          (case field of
             VPtr (TMap keyt valt) (Some cur) \<Rightarrow>
               (case cur of
                  VMap keyt' valt' m \<Rightarrow>
                    rbind (decode_entries dec n env keyt valt
                             (if 2 ^ 63 \<le> keyCount then 0 else keyCount) ft (entries m) bs')
                      (\<lambda>(m', rest). Ok (VPtr (TMap keyt valt) (Some (VMap keyt valt (Some m'))), rest))
                | _ \<Rightarrow> Unmodelled)
           | _ \<Rightarrow> Panic RuntimePanic))"

text \<open>
  The pointer case. A zero byte leaves the target alone. Otherwise the target is
  \<^verbatim>\<open>reflect.Indirect(val)\<close>: behind a pointer, the slot; a nil pointer slot gets a
  fresh value to point to, and the decoder goes on into what the slot holds (\<open>into\<close>).
  \<^verbatim>\<open>IsNil\<close> panics on the kinds that cannot be nil, and \<^verbatim>\<open>Set\<close>, \<^verbatim>\<open>Type().Elem()\<close> panic
  on a nil slot that is not a pointer. A slot whose content does not have the slot's
  type is outside the model.
\<close>

definition decode_ptr ::
  "decoder \<Rightarrow> nat \<Rightarrow> tenv \<Rightarrow> gval \<Rightarrow> fieldType \<Rightarrow> byte list \<Rightarrow> (gval \<times> byte list) res" where
  "decode_ptr dec n env field ft bs =
     (let into = (\<lambda>t cur rest.
            rbind (elem_at ft 0) (\<lambda>e.
            rbind (dec cur e rest) (\<lambda>(cur', rest'). Ok (VPtr t (Some cur'), rest')))) in
      case bs of
        [] \<Rightarrow> Panic CouldntReadPtrNilByte
      | c # rest \<Rightarrow>
          if c = 0 then Ok (field, rest)
          else
            (case field of
               VPtr t (Some cur) \<Rightarrow>
                 (case t of
                    TPtr u \<Rightarrow>
                      (case cur of
                         VPtr u' None \<Rightarrow> rbind (new_value n env u) (\<lambda>p. into t p rest)
                       | VPtr u' (Some v) \<Rightarrow> into t cur rest
                       | _ \<Rightarrow> Unmodelled)
                  | TIface \<Rightarrow>
                      (case cur of
                         VNil \<Rightarrow> Panic RuntimePanic
                       | _ \<Rightarrow> into t cur rest)
                  | TSlice u \<Rightarrow>
                      (case cur of
                         VSlice u' None \<Rightarrow> Panic RuntimePanic
                       | VSlice u' (Some xs) \<Rightarrow> into t cur rest
                       | _ \<Rightarrow> Unmodelled)
                  | TMap kt vt \<Rightarrow>
                      (case cur of
                         VMap kt' vt' None \<Rightarrow> Panic RuntimePanic
                       | VMap kt' vt' (Some m) \<Rightarrow> into t cur rest
                       | _ \<Rightarrow> Unmodelled)
                  | _ \<Rightarrow> Panic RuntimePanic)
             | VSlice u (Some xs) \<Rightarrow> rbind (elem_at ft 0) (\<lambda>e. dec field e rest)
             | VMap kt vt (Some m) \<Rightarrow> rbind (elem_at ft 0) (\<lambda>e. dec field e rest)
             | _ \<Rightarrow> Panic RuntimePanic))"

text \<open>
  The struct reference case on a map: for each field of the body that is not
  ignored, a fresh cell is decoded and stored under the field's label.
  \<^verbatim>\<open>SetMapIndex\<close> panics on a nil map, on a key type that does not take a string,
  and on a value type that does not take the cell's value.
\<close>

definition assignable :: "gval \<Rightarrow> gtype \<Rightarrow> bool" where
  "assignable v t = (t = TIface \<or> type_of v = Some t)"

fun decode_map_fields ::
  "decoder \<Rightarrow> gtype \<Rightarrow> gtype \<Rightarrow> (gval \<times> gval) list option \<Rightarrow> fieldType list \<Rightarrow> byte list
     \<Rightarrow> ((gval \<times> gval) list option \<times> byte list) res"
where
  "decode_map_fields dec kt vt m [] bs = Ok (m, bs)"
| "decode_map_fields dec kt vt m (fieldFt # fts) bs =
     (if Kind fieldFt = IGNORED_FIELD then decode_map_fields dec kt vt m fts bs
      else
        rbind (createMapValue fieldFt) (\<lambda>fieldVal.
        rbind (dec fieldVal fieldFt bs) (\<lambda>(fieldVal', bs').
        rbind (pointee fieldVal') (\<lambda>v.
          (case m of
             None \<Rightarrow> Panic RuntimePanic
           | Some kvs \<Rightarrow>
               if (kt = TBasic KString \<or> kt = TIface) \<and> assignable v vt
               then decode_map_fields dec kt vt
                      (Some (set_map_index kvs (VStr (Label fieldFt)) v)) fts bs'
               else Panic RuntimePanic)))))"

text \<open>
  The struct reference case on a struct: field \<open>i\<close> of the body is decoded into
  field \<open>i\<close> of the value. \<^verbatim>\<open>Field(i)\<close> panics past the last field, \<^verbatim>\<open>Addr()\<close> on a
  value not reached through a pointer, \<^verbatim>\<open>Interface()\<close> on an unexported field.
\<close>

fun decode_struct_fields ::
  "decoder \<Rightarrow> bool \<Rightarrow> (sfield \<times> gval) list \<Rightarrow> fieldType list \<Rightarrow> byte list
     \<Rightarrow> (gval list \<times> byte list) res"
where
  "decode_struct_fields dec addressable fvs [] bs = Ok (map snd fvs, bs)"
| "decode_struct_fields dec addressable fvs (fieldFt # fts) bs =
     (if Kind fieldFt = IGNORED_FIELD then
        (case fvs of
           [] \<Rightarrow> decode_struct_fields dec addressable [] fts bs
         | fv # rest \<Rightarrow>
             rbind (decode_struct_fields dec addressable rest fts bs)
               (\<lambda>(vs, bs'). Ok (snd fv # vs, bs')))
      else
        (case fvs of
           [] \<Rightarrow> Panic RuntimePanic
         | ((fname, ign, t), cur) # rest \<Rightarrow>
             if \<not> addressable \<or> \<not> exported fname then Panic RuntimePanic
             else
               rbind (dec (VPtr t (Some cur)) fieldFt bs) (\<lambda>(p, bs').
               rbind (pointee p) (\<lambda>v.
               rbind (decode_struct_fields dec addressable rest fts bs')
                 (\<lambda>(vs, bs''). Ok (v # vs, bs''))))))"

text \<open>Putting the decoded content back behind the pointer it was reached through.\<close>

definition restore :: "gval \<Rightarrow> gval \<Rightarrow> gval" where
  "restore field v = (case field of VPtr t p \<Rightarrow> VPtr t (Some v) | _ \<Rightarrow> v)"

definition decode_struct_ref ::
  "decoder \<Rightarrow> tenv \<Rightarrow> gval \<Rightarrow> fieldType \<Rightarrow> structMap \<Rightarrow> byte list \<Rightarrow> (gval \<times> byte list) res"
where
  "decode_struct_ref dec env field ft structs bs =
     (case indirect field of
        None \<Rightarrow> Panic RuntimePanic
      | Some (t, v, addressable) \<Rightarrow>
          (case t of
             TMap kt vt \<Rightarrow>
               (case v of
                  VMap kt' vt' m \<Rightarrow>
                    rbind (struct_elems structs (StructName ft)) (\<lambda>fts.
                    rbind (decode_map_fields dec kt vt m fts bs) (\<lambda>(m', rest).
                      Ok (restore field (VMap kt vt m'), rest)))
                | _ \<Rightarrow> Unmodelled)
           | _ \<Rightarrow>
               if type_name t \<noteq> StructName ft
               then Panic (IncompatibleStructs (type_name t) (StructName ft))
               else
                 rbind (struct_elems structs (StructName ft)) (\<lambda>fts.
                 rbind (struct_fields env t v) (\<lambda>fvs.
                 rbind (decode_struct_fields dec addressable fvs fts bs) (\<lambda>(vs, rest).
                   Ok (restore field (case v of VStruct name old \<Rightarrow> VStruct name vs | _ \<Rightarrow> v),
                       rest))))))"

text \<open>The body of \<^verbatim>\<open>decodeFieldInner\<close>: the switch on the kind of the spec node.\<close>

definition decode_case ::
  "decoder \<Rightarrow> nat \<Rightarrow> tenv \<Rightarrow> gval \<Rightarrow> fieldType \<Rightarrow> structMap \<Rightarrow> byte list
     \<Rightarrow> (gval \<times> byte list) res"
where
  "decode_case dec n env field ft structs bs =
    (case kind_case (Kind ft) of
       CFixed k \<Rightarrow> binary_read field bs
     | CBool \<Rightarrow> decode_bool field bs
     | CString \<Rightarrow> decode_string field bs
     | CSlice \<Rightarrow> decode_slice dec n env field ft bs
     | CMap \<Rightarrow> decode_map dec n env field ft bs
     | CPtr \<Rightarrow> decode_ptr dec n env field ft bs
     | CIgnored \<Rightarrow> Ok (field, bs)
     | CStructRef \<Rightarrow> decode_struct_ref dec env field ft structs bs
     | CDefault \<Rightarrow> Panic (UnsupportedDecodeKind (Kind ft)))"

text \<open>The recursion, bounded by fuel: \<open>n\<close> is the depth of calls allowed.\<close>

primrec decodeFieldInner ::
  "nat \<Rightarrow> tenv \<Rightarrow> structMap \<Rightarrow> gval \<Rightarrow> fieldType \<Rightarrow> byte list \<Rightarrow> (gval \<times> byte list) res"
where
  "decodeFieldInner 0 env structs = (\<lambda>field ft bs. Hang)"
| "decodeFieldInner (Suc n) env structs =
     (\<lambda>field ft bs. decode_case (decodeFieldInner n env structs) n env field ft structs bs)"

text \<open>
  \<^verbatim>\<open>SafeDecodeField\<close>: a panic of the decoder is recovered and returned as an
  error. The result is the target as the decoder left it.
\<close>

definition SafeDecodeField :: "nat \<Rightarrow> tenv \<Rightarrow> gval \<Rightarrow> TypeSpec \<Rightarrow> byte list \<Rightarrow> gval res" where
  "SafeDecodeField n env field ts bs =
     (case decodeFieldInner n env (Structs ts) field (Top ts) bs of
        Ok (v, rest) \<Rightarrow> Ok v
      | Err e \<Rightarrow> Err e
      | Panic e \<Rightarrow> Err (DecodingFailed e)
      | Hang \<Rightarrow> Hang
      | Unmodelled \<Rightarrow> Unmodelled)"

section \<open>Deriving a type spec\<close>

text \<open>
  \<^verbatim>\<open>makeFieldType\<close>, with the struct table passed through. \<open>mk\<close> is the recursive
  call. The kinds written as numbers are \<^verbatim>\<open>reflect.Map\<close> (21), \<^verbatim>\<open>reflect.Ptr\<close> (22),
  \<^verbatim>\<open>reflect.Slice\<close> (23) and \<^verbatim>\<open>reflect.Struct\<close> (25); \<^verbatim>\<open>reflect.Interface\<close> is 20. A
  struct key the environment does not declare is outside the model.
\<close>

type_synonym maker = "gtype \<Rightarrow> structMap \<Rightarrow> (fieldType \<times> structMap) res"

definition set_label :: "fieldType \<Rightarrow> string \<Rightarrow> fieldType" where
  "set_label ft name = FieldType (Kind ft) (Elem ft) name (StructName ft)"

fun make_fields :: "maker \<Rightarrow> sfield list \<Rightarrow> structMap \<Rightarrow> (fieldType list \<times> structMap) res" where
  "make_fields mk [] structs = Ok ([], structs)"
| "make_fields mk ((fname, ign, t) # fs) structs =
     (if ign then
        rbind (make_fields mk fs structs) (\<lambda>(elems, structs').
          Ok (FieldType IGNORED_FIELD [] fname [] # elems, structs'))
      else
        rbind (mk t structs) (\<lambda>(ft, structs').
        rbind (make_fields mk fs structs') (\<lambda>(elems, structs'').
          Ok (set_label ft fname # elems, structs''))))"

definition make_case :: "maker \<Rightarrow> tenv \<Rightarrow> gtype \<Rightarrow> structMap \<Rightarrow> (fieldType \<times> structMap) res" where
  "make_case mk env typ structs =
     (case typ of
        TBasic b \<Rightarrow>
          (case kind_case (kind_code b) of
             CFixed k \<Rightarrow> Ok (FieldType (kind_code b) [] [] [], structs)
           | CBool \<Rightarrow> Ok (FieldType (kind_code b) [] [] [], structs)
           | CString \<Rightarrow> Ok (FieldType (kind_code b) [] [] [], structs)
           | _ \<Rightarrow> Panic (CantMakeFieldType (kind_code b)))
      | TSlice e \<Rightarrow>
          rbind (mk e structs) (\<lambda>(elemType, structs'). Ok (FieldType 23 [elemType] [] [], structs'))
      | TPtr e \<Rightarrow>
          rbind (mk e structs) (\<lambda>(elemType, structs'). Ok (FieldType 22 [elemType] [] [], structs'))
      | TStruct structName \<Rightarrow>
          (case structs structName of
             Some structFt \<Rightarrow> Ok (FieldType STRUCT_REFERENCE [] [] structName, structs)
           | None \<Rightarrow>
               (case env structName of
                  None \<Rightarrow> Unmodelled
                | Some decl \<Rightarrow>
                    rbind (make_fields mk decl (structs(structName \<mapsto> None))) (\<lambda>(elems, structs').
                      Ok (FieldType STRUCT_REFERENCE [] [] structName,
                          structs'(structName \<mapsto> Some (FieldType 25 elems [] []))))))
      | TMap k v \<Rightarrow>
          rbind (mk k structs) (\<lambda>(keyType, structs').
          rbind (mk v structs') (\<lambda>(valType, structs'').
            Ok (FieldType 21 [keyType, valType] [] [], structs'')))
      | TIface \<Rightarrow> Panic (CantMakeFieldType 20))"

primrec makeFieldType :: "nat \<Rightarrow> tenv \<Rightarrow> gtype \<Rightarrow> structMap \<Rightarrow> (fieldType \<times> structMap) res" where
  "makeFieldType 0 env = (\<lambda>typ structs. Hang)"
| "makeFieldType (Suc n) env = (\<lambda>typ structs. make_case (makeFieldType n env) env typ structs)"

text \<open>
  \<^verbatim>\<open>MakeTypeSpec\<close>. Only the type of the exemplar is read; \<open>None\<close> is the nil
  interface, on which \<^verbatim>\<open>typ.Kind()\<close> panics.
\<close>

definition MakeTypeSpec :: "nat \<Rightarrow> tenv \<Rightarrow> gtype option \<Rightarrow> TypeSpec res" where
  "MakeTypeSpec n env exemplar =
     (case exemplar of
        None \<Rightarrow> Panic RuntimePanic
      | Some typ \<Rightarrow>
          rbind (makeFieldType n env typ Map.empty) (\<lambda>(top, structs).
            Ok \<lparr>Structs = structs, Top = top\<rparr>))"

section \<open>Versioned types\<close>

text \<open>
  \<^verbatim>\<open>Version\<close> and \<^verbatim>\<open>VersionedType\<close> of \<^verbatim>\<open>types.go\<close>. Of an exemplar the code
  reads its type and whether it is nil, so the model keeps the type. An upgrader
  returns an object or an error, or panics.
\<close>

type_synonym UpgradeFunc = "gval \<Rightarrow> gval res"

record Version =
  Version :: "16 word"
  Spec :: TypeSpec
  Exemplar :: "gtype option"
  Upgrader :: "UpgradeFunc option"

record VersionedType =
  Name :: string
  Tag :: "16 word"
  Versions :: "Version list"
  Dirty :: bool

text \<open>
  \<^verbatim>\<open>sort.Search(n, f)\<close> of the Go library: binary search for the least index in
  \<open>[0, n)\<close> at which \<open>f\<close> holds, \<open>n\<close> if there is none, for an \<open>f\<close> that is false
  on a prefix and true after it.
\<close>

function search :: "(nat \<Rightarrow> bool) \<Rightarrow> nat \<Rightarrow> nat \<Rightarrow> nat" where
  "search f i j =
     (if i < j then
        (let h = (i + j) div 2 in
         if \<not> f h then search f (h + 1) j else search f i h)
      else i)"
  by pat_completeness auto
termination
  by (relation "measure (\<lambda>(f, i, j). j - i)") auto

declare search.simps [simp del]

text \<open>\<^verbatim>\<open>getVersion\<close>: the index and the version found, \<open>None\<close> for \<^verbatim>\<open>(-1, nil)\<close>.\<close>

definition getVersion :: "VersionedType \<Rightarrow> 16 word \<Rightarrow> (nat \<times> Version) option" where
  "getVersion vt v =
     (let cmp = (\<lambda>i. Version (Versions vt ! i) \<le> v);
          idx = search cmp 0 (length (Versions vt))
      in if idx < length (Versions vt) \<and> Version (Versions vt ! idx) = v
         then Some (idx, Versions vt ! idx) else None)"

definition GetVersion :: "VersionedType \<Rightarrow> 16 word \<Rightarrow> Version option" where
  "GetVersion vt version = map_option snd (getVersion vt version)"

text \<open>
  \<^verbatim>\<open>sort.Sort(vt)\<close> with \<^verbatim>\<open>Less(i, j) = Versions[i].Version > Versions[j].Version\<close>:
  the list in descending order of version number. The model is the library's
  insertion sort: each element in turn is swapped towards the front while it is
  greater than its left neighbour. (On longer lists the library sorts otherwise; the
  result differs only in the order of entries with equal version numbers.)
\<close>

fun insert_back :: "Version \<Rightarrow> Version list \<Rightarrow> Version list" where
  "insert_back x [] = [x]"
| "insert_back x (y # ys) =
     (if Version y < Version x then y # insert_back x ys else x # y # ys)"

definition sort_versions :: "Version list \<Rightarrow> Version list" where
  "sort_versions vs = foldl (\<lambda>acc x. rev (insert_back x (rev acc))) [] vs"

definition AddVersionObj :: "VersionedType \<Rightarrow> Version \<Rightarrow> VersionedType" where
  "AddVersionObj vt v = vt\<lparr>Versions := sort_versions (Versions vt @ [v])\<rparr>"

text \<open>
  \<^verbatim>\<open>AddVersion\<close>. A version found with neither exemplar nor upgrader is filled in
  place. A panic of \<^verbatim>\<open>MakeTypeSpec\<close> is not recovered.
\<close>

definition AddVersion ::
  "nat \<Rightarrow> tenv \<Rightarrow> VersionedType \<Rightarrow> 16 word \<Rightarrow> gtype option \<Rightarrow> UpgradeFunc option
     \<Rightarrow> VersionedType res"
where
  "AddVersion n env vt vers exemplar upgrader =
     (case getVersion vt vers of
        Some (idx, v) \<Rightarrow>
          if Exemplar v = None \<and> Upgrader v = None
          then Ok (vt\<lparr>Versions := (Versions vt)[idx := v\<lparr>Exemplar := exemplar, Upgrader := upgrader\<rparr>]\<rparr>)
          else Err VersionAlreadyExists
      | None \<Rightarrow>
          rbind (MakeTypeSpec n env exemplar) (\<lambda>ft.
            Ok ((AddVersionObj vt
                   \<lparr>Version = vers, Spec = ft, Exemplar = exemplar, Upgrader = upgrader\<rparr>)
                \<lparr>Dirty := True\<rparr>)))"

text \<open>\<^verbatim>\<open>EncodeObj\<close>: the version number of \<^verbatim>\<open>Versions[0]\<close>, then the body.\<close>

definition EncodeObj :: "nat \<Rightarrow> tenv \<Rightarrow> VersionedType \<Rightarrow> gval \<Rightarrow> byte list res" where
  "EncodeObj n env vt obj =
     (case Versions vt of
        [] \<Rightarrow> Err (NoVersionsRegistered (Name vt))
      | v # _ \<Rightarrow>
          rbind (SafeEncodeField n env obj (Spec v)) (\<lambda>body. Ok (be16 (Version v) @ body)))"

text \<open>
  The loop of \<^verbatim>\<open>upgradeObj\<close>: from index \<open>vIdx\<close> down to 0, the upgrader of each
  newer version is applied to the object. \<open>v0\<close> is the version number the object
  was decoded at, \<open>version\<close> the number read from the buffer.
\<close>

fun upgrade_loop ::
  "Version list \<Rightarrow> 16 word \<Rightarrow> 16 word \<Rightarrow> nat \<Rightarrow> gval \<Rightarrow> (gval \<times> bool) res" where
  "upgrade_loop vs v0 version 0 obj = Ok (obj, True)"
| "upgrade_loop vs v0 version (Suc vIdx) obj =
     (let next = vs ! vIdx in
      case Upgrader next of
        None \<Rightarrow> Err (NoUpgrader v0 (Version next) version)
      | Some upgrader \<Rightarrow>
          (case upgrader obj of
             Ok obj' \<Rightarrow> upgrade_loop vs v0 version vIdx obj'
           | Err err \<Rightarrow> Err (UpgraderError err)
           | Panic p \<Rightarrow> Panic p
           | Hang \<Rightarrow> Hang
           | Unmodelled \<Rightarrow> Unmodelled))"

text \<open>The empty attribute map, \<^verbatim>\<open>make(map[string]interface{})\<close>.\<close>

definition empty_attr :: gval where
  "empty_attr = VMap (TBasic KString) TIface (Some [])"

definition upgradeObj ::
  "nat \<Rightarrow> tenv \<Rightarrow> VersionedType \<Rightarrow> 16 word \<Rightarrow> byte list \<Rightarrow> (gval \<times> bool) res" where
  "upgradeObj n env vt version buf =
     (case getVersion vt version of
        None \<Rightarrow> Err (VersionNotRegistered version)
      | Some (vIdx, v) \<Rightarrow>
          rbind (case Exemplar v of
                   Some t \<Rightarrow> new_value n env t
                 | None \<Rightarrow> Ok empty_attr) (\<lambda>obj.
            (case SafeDecodeField n env obj (Spec v) buf of
               Err err \<Rightarrow> Err (ErrorDecodingInitial (Version v) err)
             | Ok obj' \<Rightarrow> upgrade_loop (Versions vt) (Version v) version vIdx obj'
             | Panic p \<Rightarrow> Panic p
             | Hang \<Rightarrow> Hang
             | Unmodelled \<Rightarrow> Unmodelled)))"

text \<open>\<^verbatim>\<open>DecodeObj\<close>: the object and the \<^verbatim>\<open>upgraded\<close> flag.\<close>

definition DecodeObj ::
  "nat \<Rightarrow> tenv \<Rightarrow> VersionedType \<Rightarrow> byte list \<Rightarrow> bool \<Rightarrow> (gval \<times> bool) res" where
  "DecodeObj n env vt encObj toMap =
     (case Versions vt of
        [] \<Rightarrow> Err (NoVersionsRegistered (Name vt))
      | v # _ \<Rightarrow>
          (let (version, buf) = read_version encObj in
           if Version v \<noteq> version then upgradeObj n env vt version buf
           else
             (case Exemplar v of
                None \<Rightarrow> Err (NoExemplar version)
              | Some t \<Rightarrow>
                  rbind (if toMap \<or> Exemplar v = None then Ok empty_attr
                         else new_value n env t) (\<lambda>target.
                  rbind (SafeDecodeField n env target (Spec v) buf) (\<lambda>target'.
                    Ok (target', False))))))"

text \<open>
  \<^verbatim>\<open>DecodeInto\<close>. \<open>obj\<close> is the caller's \<^verbatim>\<open>map[string]interface{}\<close>, \<open>None\<close>
  the nil map; the result is the map as the call leaves it. The assignment of
  \<^verbatim>\<open>_version\<close> panics on a nil map.
\<close>

definition DecodeInto ::
  "nat \<Rightarrow> tenv \<Rightarrow> VersionedType \<Rightarrow> byte list \<Rightarrow> (gval \<times> gval) list option
     \<Rightarrow> (gval \<times> gval) list res"
where
  "DecodeInto n env vt encObj obj =
     (case Versions vt of
        [] \<Rightarrow> Err (NoVersionsRegistered (Name vt))
      | _ # _ \<Rightarrow>
          (let (version, buf) = read_version encObj in
           case getVersion vt version of
             None \<Rightarrow> Err (VersionNotRegistered version)
           | Some (idx, v) \<Rightarrow>
               rbind (SafeDecodeField n env (VMap (TBasic KString) TIface obj) (Spec v) buf)
                 (\<lambda>obj'.
                   (case obj' of
                      VMap kt vt' (Some m) \<Rightarrow>
                        Ok (set_map_index m (VStr ''_version'') (VNum KUint16 (be16 (Version v))))
                    | VMap kt vt' None \<Rightarrow> Panic RuntimePanic
                    | _ \<Rightarrow> Unmodelled))))"

section \<open>The invariant of the version list\<close>

text \<open>
  The version list is kept in descending order of version number, without
  duplicates: \<^verbatim>\<open>getVersion\<close> searches it by bisection and \<^verbatim>\<open>Versions[0]\<close> is taken
  as the latest version.
\<close>

definition descending :: "Version list \<Rightarrow> bool" where
  "descending vs = sorted_wrt (\<lambda>a b. Version b < Version a) vs"

section \<open>The upgrade steps as the specification words them\<close>


section \<open>The upgrade scenario of the test suite\<close>

text \<open>
  \<^verbatim>\<open>TestUpgrade\<close>: three versions of the type \<^verbatim>\<open>test\<close>, registered from the
  exemplars \<^verbatim>\<open>st0{Name string}\<close>, \<^verbatim>\<open>st1{Name string; Age uint16}\<close> and
  \<^verbatim>\<open>st2{Age uint16; Moniker string}\<close>, with the upgraders \<^verbatim>\<open>st0to1\<close> (sets
  \<^verbatim>\<open>Age\<close> to the \<^verbatim>\<open>int\<close> 32) and \<^verbatim>\<open>st1to2\<close> (moves \<^verbatim>\<open>Name\<close> to \<^verbatim>\<open>Moniker\<close>). Both
  upgraders assert that their argument is a \<^verbatim>\<open>map[string]interface{}\<close>, and the test
  clears the exemplars of versions 0 and 1 so that the old object is decoded into
  one.
\<close>

definition st0 :: string where "st0 = ''spack/st0''"
definition st1 :: string where "st1 = ''spack/st1''"
definition st2 :: string where "st2 = ''spack/st2''"

definition test_env :: tenv where
  "test_env = [st0 \<mapsto> [(''Name'', False, TBasic KString)],
               st1 \<mapsto> [(''Name'', False, TBasic KString), (''Age'', False, TBasic KUint16)],
               st2 \<mapsto> [(''Age'', False, TBasic KUint16), (''Moniker'', False, TBasic KString)]]"

definition st0to1 :: UpgradeFunc where
  "st0to1 obj0 =
     (case obj0 of
        VMap kt vt m \<Rightarrow>
          if kt = TBasic KString \<and> vt = TIface then
            (case m of
               None \<Rightarrow> Panic RuntimePanic
             | Some kvs \<Rightarrow> Ok (VMap kt vt (Some (set_map_index kvs (VStr ''Age'') (VInt 32)))))
          else Panic RuntimePanic
      | _ \<Rightarrow> Panic RuntimePanic)"

definition st1to2 :: UpgradeFunc where
  "st1to2 obj1 =
     (case obj1 of
        VMap kt vt m \<Rightarrow>
          if kt = TBasic KString \<and> vt = TIface then
            (case m of
               None \<Rightarrow> Panic RuntimePanic
             | Some kvs \<Rightarrow>
                 Ok (VMap kt vt (Some (filter (\<lambda>(k, v). k \<noteq> VStr ''Name'')
                       (set_map_index kvs (VStr ''Moniker'') (map_index m (VStr ''Name'')))))))
          else Panic RuntimePanic
      | _ \<Rightarrow> Panic RuntimePanic)"

text \<open>The type after \<^verbatim>\<open>RegisterType("test")\<close> on a fresh type set.\<close>

definition test_type :: VersionedType where
  "test_type = \<lparr>Name = ''test'', Tag = 2, Versions = [], Dirty = True\<rparr>"

text \<open>\<^verbatim>\<open>vt.GetVersion(ver).Exemplar = nil\<close>.\<close>

definition clear_exemplar :: "16 word \<Rightarrow> VersionedType \<Rightarrow> VersionedType" where
  "clear_exemplar ver vt =
     (case getVersion vt ver of
        None \<Rightarrow> vt
      | Some (idx, v) \<Rightarrow> vt\<lparr>Versions := (Versions vt)[idx := v\<lparr>Exemplar := None\<rparr>]\<rparr>)"

text \<open>The specs \<^verbatim>\<open>MakeTypeSpec\<close> derives from the three exemplars.\<close>

definition spec0 :: TypeSpec where
  "spec0 = \<lparr>Structs = [st0 \<mapsto> Some (FieldType 25 [FieldType 24 [] ''Name'' []] [] [])],
            Top = FieldType 255 [] [] st0\<rparr>"

definition spec1 :: TypeSpec where
  "spec1 = \<lparr>Structs = [st1 \<mapsto> Some (FieldType 25
                [FieldType 24 [] ''Name'' [], FieldType 9 [] ''Age'' []] [] [])],
            Top = FieldType 255 [] [] st1\<rparr>"

definition spec2 :: TypeSpec where
  "spec2 = \<lparr>Structs = [st2 \<mapsto> Some (FieldType 25
                [FieldType 9 [] ''Age'' [], FieldType 24 [] ''Moniker'' []] [] [])],
            Top = FieldType 255 [] [] st2\<rparr>"

text \<open>The three versions as \<^verbatim>\<open>AddVersion\<close> registers them.\<close>

definition vers0 :: Version where
  "vers0 = \<lparr>Version = 0, Spec = spec0, Exemplar = Some (TStruct st0), Upgrader = None\<rparr>"

definition vers1 :: Version where
  "vers1 = \<lparr>Version = 1, Spec = spec1, Exemplar = Some (TStruct st1), Upgrader = Some st0to1\<rparr>"

definition vers2 :: Version where
  "vers2 = \<lparr>Version = 2, Spec = spec2, Exemplar = Some (TStruct st2), Upgrader = Some st1to2\<rparr>"

text \<open>The type with version 0 only, and the type at the end of the registration,
  the exemplars of versions 0 and 1 cleared.\<close>

definition test_type0 :: VersionedType where
  "test_type0 = test_type\<lparr>Versions := [vers0]\<rparr>"

definition test_type2 :: VersionedType where
  "test_type2 =
     test_type\<lparr>Versions := [vers2, vers1\<lparr>Exemplar := None\<rparr>, vers0\<lparr>Exemplar := None\<rparr>]\<rparr>"

text \<open>\<^verbatim>\<open>&st0{"Brend"}\<close> and its encoding under version 0.\<close>

definition brend :: gval where
  "brend = VPtr (TStruct st0) (Some (VStruct st0 [VStr ''Brend'']))"

definition brend_enc :: "byte list" where
  "brend_enc = [0, 0, 5, 66, 114, 101, 110, 100]"

text \<open>A type whose only version has no exemplar, as \<^verbatim>\<open>AddVersionObj\<close> installs one
  that was loaded from storage.\<close>

definition loaded_type :: VersionedType where
  "loaded_type = test_type\<lparr>Versions := [vers0\<lparr>Exemplar := None\<rparr>]\<rparr>"

section \<open>Facts about the outcome type and the byte helpers\<close>

lemma rbind_Ok_iff: "rbind m f = Ok r \<longleftrightarrow> (\<exists>x. m = Ok x \<and> f x = Ok r)"
  by (cases m) auto


lemma read_version_be16: "read_version (be16 w @ body) = (w, body)"
proof -
  have "push_bit 8 (ucast (ucast (drop_bit 8 w) :: byte)) OR ucast (ucast w :: byte) = w"
    by (rule bit_word_eqI) (auto simp: bit_simps)
  then show ?thesis by (simp add: be16_def)
qed

lemma be_bytes_2: "be_bytes 2 w = [ucast (drop_bit 8 w), ucast w]"
  by (simp add: numeral_2_eq_2)

lemma map_of_set_map_index: "map_of (set_map_index m k v) k = Some v"
  by (induction m) auto

section \<open>The bisection of \<^verbatim>\<open>getVersion\<close>\<close>

text \<open>
  On a descending list without duplicates the bisection finds every registered
  version at its index; a version that is not in the list is never found, whatever
  the order.
\<close>

lemma search_least:
  "lo \<le> i \<Longrightarrow> i \<le> hi \<Longrightarrow> (\<forall>k. lo \<le> k \<and> k < i \<longrightarrow> \<not> f k) \<Longrightarrow> (\<forall>k. i \<le> k \<and> k < hi \<longrightarrow> f k)
   \<Longrightarrow> search f lo hi = i"
proof (induction f lo hi rule: search.induct)
  case (1 f lo hi)
  show ?case
  proof (cases "lo < hi")
    case False
    with "1.prems" show ?thesis by (simp add: search.simps [of f lo hi])
  next
    case True
    let ?h = "(lo + hi) div 2"
    have hb: "lo \<le> ?h" "?h < hi" using True by auto
    show ?thesis
    proof (cases "f ?h")
      case fh: True
      have "i \<le> ?h"
      proof (rule ccontr)
        assume "\<not> i \<le> ?h"
        then have "?h < i" by simp
        with hb "1.prems" fh show False by blast
      qed
      with "1.IH"(2) [OF True refl] fh "1.prems" hb have "search f lo ?h = i" by auto
      with True fh show ?thesis by (simp add: search.simps [of f lo hi] Let_def)
    next
      case nfh: False
      have "?h < i"
      proof (rule ccontr)
        assume "\<not> ?h < i"
        then have "i \<le> ?h" by simp
        with hb "1.prems" nfh show False by blast
      qed
      with "1.IH"(1) [OF True refl] nfh "1.prems" hb have "search f (?h + 1) hi = i" by auto
      with True nfh show ?thesis by (simp add: search.simps [of f lo hi] Let_def)
    qed
  qed
qed

lemma search_cong:
  "(\<And>k. lo \<le> k \<Longrightarrow> k < hi \<Longrightarrow> f k = g k) \<Longrightarrow> search f lo hi = search g lo hi"
proof (induction f lo hi rule: search.induct)
  case (1 f i j)
  show ?case
  proof (cases "i < j")
    case False
    then show ?thesis by (simp add: search.simps [of _ i j])
  next
    case True
    let ?h = "(i + j) div 2"
    have h: "i \<le> ?h" "?h < j" using True by auto
    then have fg: "f ?h = g ?h" using "1.prems" by simp
    show ?thesis
    proof (cases "f ?h")
      case fh: True
      have "search f i ?h = search g i ?h"
        using "1.IH"(2) [OF True refl] fh "1.prems" h by auto
      with True fh fg show ?thesis by (simp add: search.simps [of _ i j] Let_def)
    next
      case nfh: False
      have "search f (?h + 1) j = search g (?h + 1) j"
        using "1.IH"(1) [OF True refl] nfh "1.prems" h by auto
      with True nfh fg show ?thesis by (simp add: search.simps [of _ i j] Let_def)
    qed
  qed
qed

lemma getVersion_found:
  assumes "descending (Versions vt)" and "i < length (Versions vt)"
  shows "getVersion vt (Version (Versions vt ! i)) = Some (i, Versions vt ! i)"
proof -
  let ?vs = "Versions vt"
  let ?f = "\<lambda>k. Version (?vs ! k) \<le> Version (?vs ! i)"
  have d: "\<And>a b. a < b \<Longrightarrow> b < length ?vs \<Longrightarrow> Version (?vs ! b) < Version (?vs ! a)"
    using assms(1) by (simp add: descending_def sorted_wrt_iff_nth_less)
  have "search ?f 0 (length ?vs) = i"
  proof (rule search_least)
    show "\<forall>k. 0 \<le> k \<and> k < i \<longrightarrow> \<not> ?f k" using d assms(2) by (auto simp: not_le)
    show "\<forall>k. i \<le> k \<and> k < length ?vs \<longrightarrow> ?f k"
    proof (intro allI impI)
      fix k assume "i \<le> k \<and> k < length ?vs"
      then show "?f k" using d [of i k] by (cases "i = k") auto
    qed
  qed (use assms in auto)
  then show ?thesis using assms(2) by (simp add: getVersion_def Let_def)
qed

lemma getVersion_Some:
  "getVersion vt version = Some (idx, v) \<Longrightarrow>
     idx < length (Versions vt) \<and> v = Versions vt ! idx \<and> Version v = version"
  by (auto simp: getVersion_def Let_def split: if_splits)

lemma getVersion_absent:
  assumes "version \<notin> Version ` set (Versions vt)"
  shows "getVersion vt version = None"
proof (cases "getVersion vt version")
  case None
  then show ?thesis .
next
  case (Some p)
  obtain idx v where "p = (idx, v)" by (cases p)
  with Some getVersion_Some [of vt version idx v]
  have "idx < length (Versions vt)" and "Version (Versions vt ! idx) = version" by auto
  then have "version \<in> Version ` set (Versions vt)" by (metis imageI nth_mem)
  with assms show ?thesis by simp
qed

lemma getVersion_None_absent:
  assumes "descending (Versions vt)" and "getVersion vt vers = None"
  shows "vers \<notin> Version ` set (Versions vt)"
proof
  assume "vers \<in> Version ` set (Versions vt)"
  then obtain i where "i < length (Versions vt)" and "Version (Versions vt ! i) = vers"
    by (auto simp: in_set_conv_nth)
  with getVersion_found [OF assms(1), of i] assms(2) show False by simp
qed

lemma getVersion_upgrader_free:
  "getVersion (vt\<lparr>Versions := map (\<lambda>v. v\<lparr>Upgrader := u v\<rparr>) (Versions vt)\<rparr>) version
     = map_option (\<lambda>(idx, v). (idx, v\<lparr>Upgrader := u v\<rparr>)) (getVersion vt version)"
proof -
  let ?vs = "Versions vt"
  let ?g = "\<lambda>v. v\<lparr>Upgrader := u v\<rparr>"
  have "search (\<lambda>i. Version (map ?g ?vs ! i) \<le> version) 0 (length ?vs)
          = search (\<lambda>i. Version (?vs ! i) \<le> version) 0 (length ?vs)"
    by (rule search_cong) simp
  then show ?thesis by (auto simp: getVersion_def Let_def)
qed

section \<open>\<^verbatim>\<open>AddVersion\<close> keeps the version list descending\<close>

lemma insert_back_set: "set (insert_back x r) = insert x (set r)"
  by (induction r) auto

lemma insert_back_ascending:
  "sorted_wrt (\<lambda>a b. Version a < Version b) r \<Longrightarrow> Version x \<notin> Version ` set r \<Longrightarrow>
   sorted_wrt (\<lambda>a b. Version a < Version b) (insert_back x r)"
proof (induction r)
  case Nil
  then show ?case by simp
next
  case (Cons y ys)
  show ?case
  proof (cases "Version y < Version x")
    case True
    with Cons show ?thesis by (auto simp: insert_back_set)
  next
    case False
    with Cons.prems have "Version x < Version y" by auto
    with Cons.prems show ?thesis using False by (auto intro: less_trans)
  qed
qed

lemma descending_rev:
  "descending vs \<longleftrightarrow> sorted_wrt (\<lambda>a b. Version a < Version b) (rev vs)"
  by (simp add: descending_def sorted_wrt_rev)

lemma sort_versions_snoc:
  "sort_versions (vs @ [v]) = rev (insert_back v (rev (sort_versions vs)))"
  by (simp add: sort_versions_def)

lemma sort_versions_descending: "descending vs \<Longrightarrow> sort_versions vs = vs"
proof (induction vs rule: rev_induct)
  case Nil
  then show ?case by (simp add: sort_versions_def)
next
  case (snoc x xs)
  then have xs: "descending xs" and gt: "\<forall>y \<in> set xs. Version x < Version y"
    by (auto simp: descending_def sorted_wrt_append)
  have "insert_back x (rev xs) = x # rev xs"
  proof (cases "rev xs")
    case Nil
    then show ?thesis by simp
  next
    case (Cons y ys)
    then have "y \<in> set xs" by (metis list.set_intros(1) set_rev)
    with gt have "\<not> Version y < Version x" by auto
    with Cons show ?thesis by simp
  qed
  with snoc.IH [OF xs] show ?case by (simp add: sort_versions_snoc)
qed

lemma AddVersionObj_descending:
  assumes "descending (Versions vt)" and "Version v \<notin> Version ` set (Versions vt)"
  shows "descending (Versions (AddVersionObj vt v))"
    and "set (Versions (AddVersionObj vt v)) = insert v (set (Versions vt))"
proof -
  have eq: "Versions (AddVersionObj vt v) = rev (insert_back v (rev (Versions vt)))"
    using assms(1) by (simp add: AddVersionObj_def sort_versions_snoc sort_versions_descending)
  show "descending (Versions (AddVersionObj vt v))"
    unfolding eq descending_rev using assms
    by (simp add: insert_back_ascending descending_rev)
  show "set (Versions (AddVersionObj vt v)) = insert v (set (Versions vt))"
    unfolding eq by (simp add: insert_back_set)
qed

lemma AddVersion_new:
  "vers \<notin> Version ` set (Versions vt) \<Longrightarrow> MakeTypeSpec n env ex = Ok sp \<Longrightarrow>
   AddVersion n env vt vers ex up
     = Ok ((AddVersionObj vt \<lparr>Version = vers, Spec = sp, Exemplar = ex, Upgrader = up\<rparr>)
             \<lparr>Dirty := True\<rparr>)"
  by (simp add: AddVersion_def getVersion_absent)

lemma AddVersion_descending:
  assumes "descending (Versions vt)" and "AddVersion n env vt vers exemplar upgrader = Ok vt'"
  shows "descending (Versions vt')"
proof (cases "getVersion vt vers")
  case None
  with assms(2) obtain ft where
    vt': "vt' = (AddVersionObj vt \<lparr>Version = vers, Spec = ft, Exemplar = exemplar, Upgrader = upgrader\<rparr>)
                 \<lparr>Dirty := True\<rparr>"
    by (auto simp: AddVersion_def rbind_Ok_iff)
  from getVersion_None_absent [OF assms(1) None]
  show ?thesis unfolding vt' using AddVersionObj_descending(1) [OF assms(1)] by simp
next
  case (Some p)
  obtain idx v where p: "p = (idx, v)" by (cases p)
  with Some getVersion_Some [of vt vers idx v]
  have idx: "idx < length (Versions vt)" and v: "v = Versions vt ! idx" by auto
  from Some p assms(2) have
    vt': "vt' = vt\<lparr>Versions := (Versions vt)[idx := v\<lparr>Exemplar := exemplar, Upgrader := upgrader\<rparr>]\<rparr>"
    by (auto simp: AddVersion_def split: if_splits)
  have "map Version ((Versions vt)[idx := v\<lparr>Exemplar := exemplar, Upgrader := upgrader\<rparr>])
          = map Version (Versions vt)"
    using idx v by (simp add: map_update list_update_same_conv)
  moreover have "\<And>xs. descending xs \<longleftrightarrow> sorted_wrt (\<lambda>a b. b < a) (map Version xs)"
    by (simp add: descending_def sorted_wrt_map)
  ultimately show ?thesis using assms(1) unfolding vt' by simp
qed

section \<open>The upgrade loop\<close>




section \<open>The scenario is what the registration produces\<close>

lemmas scenario_defs = test_env_def st0_def st1_def st2_def spec0_def spec1_def spec2_def
  test_type_def test_type0_def test_type2_def vers0_def vers1_def vers2_def
  brend_def brend_enc_def st0to1_def st1to2_def loaded_type_def

lemmas codec_defs = SafeDecodeField_def SafeEncodeField_def decode_case_def encode_case_def
  kind_case_def IGNORED_FIELD_def STRUCT_REFERENCE_def decode_struct_ref_def encode_struct_ref_def
  struct_elems_def struct_fields_def decode_string_def encode_string_def read_uvarint_def
  writeLength_def restore_def assignable_def map_index_def exported_def new_value_def
  empty_attr_def attr_map_def char_of_def bit_Suc_0_iff be16_def

lemma MakeTypeSpec_st0: "MakeTypeSpec (Suc (Suc (Suc 0))) test_env (Some (TStruct st0)) = Ok spec0"
  by (simp add: scenario_defs MakeTypeSpec_def make_case_def kind_case_def
      IGNORED_FIELD_def STRUCT_REFERENCE_def set_label_def)

lemma MakeTypeSpec_st1: "MakeTypeSpec (Suc (Suc (Suc 0))) test_env (Some (TStruct st1)) = Ok spec1"
  by (simp add: scenario_defs MakeTypeSpec_def make_case_def kind_case_def
      IGNORED_FIELD_def STRUCT_REFERENCE_def set_label_def)

lemma MakeTypeSpec_st2: "MakeTypeSpec (Suc (Suc (Suc 0))) test_env (Some (TStruct st2)) = Ok spec2"
  by (simp add: scenario_defs MakeTypeSpec_def make_case_def kind_case_def
      IGNORED_FIELD_def STRUCT_REFERENCE_def set_label_def)

lemma register_version0:
  "AddVersion (Suc (Suc (Suc 0))) test_env test_type 0 (Some (TStruct st0)) None
     = Ok (test_type\<lparr>Versions := [vers0]\<rparr>)"
  by (simp add: AddVersion_new MakeTypeSpec_st0 test_type_def AddVersionObj_def sort_versions_def vers0_def)

lemma register_version1:
  "AddVersion (Suc (Suc (Suc 0))) test_env (test_type\<lparr>Versions := [vers0]\<rparr>) 1
       (Some (TStruct st1)) (Some st0to1)
     = Ok (test_type\<lparr>Versions := [vers1, vers0]\<rparr>)"
  by (simp add: AddVersion_new MakeTypeSpec_st1 test_type_def AddVersionObj_def sort_versions_def vers0_def
      vers1_def)

lemma register_version2:
  "AddVersion (Suc (Suc (Suc 0))) test_env (test_type\<lparr>Versions := [vers1, vers0]\<rparr>) 2
       (Some (TStruct st2)) (Some st1to2)
     = Ok (test_type\<lparr>Versions := [vers2, vers1, vers0]\<rparr>)"
  by (simp add: AddVersion_new MakeTypeSpec_st2 test_type_def AddVersionObj_def sort_versions_def vers0_def
      vers1_def vers2_def)

lemma clear_exemplars:
  "clear_exemplar 1 (clear_exemplar 0 (test_type\<lparr>Versions := [vers2, vers1, vers0]\<rparr>)) = test_type2"
proof -
  have g0: "getVersion (test_type\<lparr>Versions := [vers2, vers1, vers0]\<rparr>) 0 = Some (2, vers0)"
    using getVersion_found [of "test_type\<lparr>Versions := [vers2, vers1, vers0]\<rparr>" 2]
    by (simp add: descending_def vers0_def vers1_def vers2_def)
  have g1: "getVersion (test_type\<lparr>Versions := [vers2, vers1, vers0\<lparr>Exemplar := None\<rparr>]\<rparr>) 1
              = Some (1, vers1)"
    using getVersion_found [of "test_type\<lparr>Versions := [vers2, vers1, vers0\<lparr>Exemplar := None\<rparr>]\<rparr>" 1]
    by (simp add: descending_def vers0_def vers1_def vers2_def)
  show ?thesis
    by (simp add: clear_exemplar_def g0 g1)
       (simp add: test_type2_def)
qed

lemma encode_brend: "EncodeObj (Suc (Suc (Suc 0))) test_env test_type0 brend = Ok brend_enc"
  by (simp add: scenario_defs EncodeObj_def SafeEncodeField_def encode_case_def
      kind_case_def IGNORED_FIELD_def STRUCT_REFERENCE_def encode_struct_ref_def struct_elems_def
      struct_fields_def exported_def encode_string_def writeLength_def be16_def)

section \<open>The bool codec\<close>

text \<open>
  C4. Against a spec node of kind bool, the encoder writes the single byte \<open>01\<close>
  for true and \<open>00\<close> for false; the decoder, given a \<^verbatim>\<open>*bool\<close>, stores false on
  the byte \<open>00\<close> and true on the byte \<open>01\<close> and consumes that byte only; on any
  other byte it panics with "Bool byte neither 0 nor 1", whatever the target, and
  \<^verbatim>\<open>SafeDecodeField\<close> returns that as a \<^verbatim>\<open>TypeError\<close>.
\<close>

theorem bool_codec:
  "Kind ft = 1 \<Longrightarrow>
     encodeFieldInner (Suc n) env structs (VBool True) ft = Ok [1]
   \<and> encodeFieldInner (Suc n) env structs (VBool False) ft = Ok [0]
   \<and> decodeFieldInner (Suc n) env structs (VPtr (TBasic KBool) (Some cur)) ft (0 # rest)
       = Ok (VPtr (TBasic KBool) (Some (VBool False)), rest)
   \<and> decodeFieldInner (Suc n) env structs (VPtr (TBasic KBool) (Some cur)) ft (1 # rest)
       = Ok (VPtr (TBasic KBool) (Some (VBool True)), rest)
   \<and> (b \<noteq> 0 \<and> b \<noteq> 1 \<longrightarrow>
        decodeFieldInner (Suc n) env structs target ft (b # rest) = Panic (BoolByteNeither b)
      \<and> SafeDecodeField (Suc n) env target \<lparr>Structs = structs, Top = ft\<rparr> (b # rest)
          = Err (DecodingFailed (BoolByteNeither b)))"
  by (simp add: encode_case_def decode_case_def kind_case_def encode_bool_def decode_bool_def
        SafeDecodeField_def)

theorem bool_codec_witness:
  "Kind (FieldType 1 [] [] []) = 1 \<and> (2 :: byte) \<noteq> 0 \<and> (2 :: byte) \<noteq> 1
   \<and> encodeFieldInner (Suc 0) Map.empty Map.empty (VBool True) (FieldType 1 [] [] []) = Ok [1]
   \<and> encodeFieldInner (Suc 0) Map.empty Map.empty (VBool False) (FieldType 1 [] [] []) = Ok [0]
   \<and> decodeFieldInner (Suc 0) Map.empty Map.empty (VPtr (TBasic KBool) (Some (VBool True)))
        (FieldType 1 [] [] []) [0, 7] = Ok (VPtr (TBasic KBool) (Some (VBool False)), [7])
   \<and> decodeFieldInner (Suc 0) Map.empty Map.empty (VPtr (TBasic KBool) (Some (VBool False)))
        (FieldType 1 [] [] []) [1, 7] = Ok (VPtr (TBasic KBool) (Some (VBool True)), [7])
   \<and> SafeDecodeField (Suc 0) Map.empty (VPtr (TBasic KBool) (Some (VBool False)))
        \<lparr>Structs = Map.empty, Top = FieldType 1 [] [] []\<rparr> [2, 7]
        = Err (DecodingFailed (BoolByteNeither 2))"
  using bool_codec [where ft = "FieldType 1 [] [] []" and n = 0 and env = Map.empty
      and structs = Map.empty and cur = "VBool True" and rest = "[7]" and b = 2
      and target = "VPtr (TBasic KBool) (Some (VBool False))"]
    bool_codec [where ft = "FieldType 1 [] [] []" and n = 0 and env = Map.empty
      and structs = Map.empty and cur = "VBool False" and rest = "[7]" and b = 2
      and target = "VPtr (TBasic KBool) (Some (VBool False))"]
  by simp

section \<open>Decoding an object of the latest version\<close>

lemma DecodeObj_latest:
  "Versions vt = v # vs \<Longrightarrow> read_version encObj = (Version v, buf) \<Longrightarrow>
   DecodeObj n env vt encObj toMap =
     (case Exemplar v of
        None \<Rightarrow> Err (NoExemplar (Version v))
      | Some t \<Rightarrow>
          rbind (if toMap then Ok empty_attr else new_value n env t) (\<lambda>target.
          rbind (SafeDecodeField n env target (Spec v) buf) (\<lambda>target'. Ok (target', False))))"
  by (simp add: DecodeObj_def split: option.splits)

text \<open>With its exemplar in place the latest version decodes as the claim says: the
  version 2 encoding of the upgraded object gives a \<^verbatim>\<open>*st2\<close>, or an attribute map
  under \<^verbatim>\<open>toMap\<close>, and \<open>upgraded = false\<close>.\<close>

lemma decode_latest_scenario:
  "DecodeObj (Suc (Suc (Suc 0))) test_env test_type2 [0, 2, 0, 32, 5, 66, 114, 101, 110, 100] False
     = Ok (VPtr (TStruct st2) (Some (VStruct st2 [VNum KUint16 [0, 32], VStr ''Brend''])), False)
   \<and> DecodeObj (Suc (Suc (Suc 0))) test_env test_type2 [0, 2, 0, 32, 5, 66, 114, 101, 110, 100] True
     = Ok (attr_map [(''Age'', VNum KUint16 [0, 32]), (''Moniker'', VStr ''Brend'')], False)"
  by (simp add: DecodeObj_latest [of _ vers2 "[vers1\<lparr>Exemplar := None\<rparr>, vers0\<lparr>Exemplar := None\<rparr>]"]
      scenario_defs codec_defs)

text \<open>
  C1. The claim: when the version prefix equals the latest version, \<^verbatim>\<open>DecodeObj\<close>
  decodes into a fresh value of the exemplar's shape, or into an attribute map when
  \<^verbatim>\<open>toMap\<close> is set or when the version has no exemplar, and returns
  \<open>upgraded = false\<close>. The code decodes into an attribute map under
  \<^verbatim>\<open>toMap || v.Exemplar == nil\<close>, but returns "Object version has no exemplar"
  just before whenever the exemplar is nil, so the second disjunct is never reached.
  At the type whose only version (0) has no exemplar, the encoding of
  \<^verbatim>\<open>{Name: "Brend"}\<close> under version 0 is refused with that error for either value of
  \<^verbatim>\<open>toMap\<close>, although decoding its body into an empty attribute map against the
  version's spec succeeds.
\<close>

theorem DecodeObj_no_exemplar_fails:
  "Exemplar (hd (Versions loaded_type)) = None
   \<and> read_version brend_enc = (Version (hd (Versions loaded_type)), drop 2 brend_enc)
   \<and> DecodeObj (Suc (Suc (Suc 0))) test_env loaded_type brend_enc False = Err (NoExemplar 0)
   \<and> DecodeObj (Suc (Suc (Suc 0))) test_env loaded_type brend_enc True = Err (NoExemplar 0)
   \<and> SafeDecodeField (Suc (Suc (Suc 0))) test_env empty_attr
        (Spec (hd (Versions loaded_type))) (drop 2 brend_enc)
       = Ok (attr_map [(''Name'', VStr ''Brend'')])"
  by (simp add: scenario_defs DecodeObj_def codec_defs)

section \<open>Decoding an object of an older version\<close>



section \<open>Encoding an object\<close>

text \<open>
  C3. \<^verbatim>\<open>EncodeObj\<close> returns the error "No versions registered" when the version
  list is empty. When it returns bytes, on a descending version list, they are the
  two bytes of the number of \<^verbatim>\<open>Versions[0]\<close>, high byte first, followed by the body
  that \<^verbatim>\<open>SafeEncodeField\<close> produces against the spec of \<^verbatim>\<open>Versions[0]\<close>; that number
  is greater than the number of every other version in the list, and
  \<^verbatim>\<open>read_version\<close> reads it back.
\<close>

theorem EncodeObj_header:
  "(Versions vt = [] \<longrightarrow> EncodeObj n env vt obj = Err (NoVersionsRegistered (Name vt)))
   \<and> (descending (Versions vt) \<and> EncodeObj n env vt obj = Ok enc \<longrightarrow>
        (\<exists>v vs body. Versions vt = v # vs
            \<and> (\<forall>w \<in> set vs. Version w < Version v)
            \<and> SafeEncodeField n env obj (Spec v) = Ok body
            \<and> enc = be16 (Version v) @ body
            \<and> take 2 enc = [ucast (drop_bit 8 (Version v)), ucast (Version v)]
            \<and> read_version enc = (Version v, body)))"
proof (intro conjI impI)
  show "Versions vt = [] \<Longrightarrow> EncodeObj n env vt obj = Err (NoVersionsRegistered (Name vt))"
    by (simp add: EncodeObj_def)
next
  assume a: "descending (Versions vt) \<and> EncodeObj n env vt obj = Ok enc"
  then obtain v vs where vs: "Versions vt = v # vs"
    by (cases "Versions vt") (auto simp: EncodeObj_def)
  with a obtain body where body: "SafeEncodeField n env obj (Spec v) = Ok body"
    and enc: "enc = be16 (Version v) @ body"
    by (auto simp: EncodeObj_def rbind_Ok_iff)
  from a vs have "\<forall>w \<in> set vs. Version w < Version v" by (simp add: descending_def)
  moreover have "take 2 enc = [ucast (drop_bit 8 (Version v)), ucast (Version v)]"
    by (simp add: enc be16_def)
  moreover have "read_version enc = (Version v, body)"
    unfolding enc by (rule read_version_be16)
  ultimately show "\<exists>v vs body. Versions vt = v # vs
            \<and> (\<forall>w \<in> set vs. Version w < Version v)
            \<and> SafeEncodeField n env obj (Spec v) = Ok body
            \<and> enc = be16 (Version v) @ body
            \<and> take 2 enc = [ucast (drop_bit 8 (Version v)), ucast (Version v)]
            \<and> read_version enc = (Version v, body)"
    using vs body enc by blast
qed

theorem EncodeObj_header_witness:
  "Versions test_type = []
   \<and> EncodeObj (Suc (Suc (Suc 0))) test_env test_type brend = Err (NoVersionsRegistered ''test'')
   \<and> descending (Versions test_type2)
   \<and> EncodeObj (Suc (Suc (Suc 0))) test_env test_type2
        (attr_map [(''Age'', VInt 32), (''Moniker'', VStr ''Brend'')])
       = Ok [0, 2, 0, 32, 5, 66, 114, 101, 110, 100]
   \<and> take 2 [0, 2, 0, 32, 5, 66, 114, 101, 110, 100 :: byte]
       = [ucast (drop_bit 8 (2 :: 16 word)), ucast (2 :: 16 word)]"
  using EncodeObj_header [of test_type "Suc (Suc (Suc 0))" test_env brend "[]"]
    EncodeObj_header [of test_type2 "Suc (Suc (Suc 0))" test_env
      "attr_map [(''Age'', VInt 32), (''Moniker'', VStr ''Brend'')]"
      "[0, 2, 0, 32, 5, 66, 114, 101, 110, 100]"]
  by (simp add: scenario_defs EncodeObj_def codec_defs descending_def be_bytes_2)

section \<open>Decoding into a caller's map\<close>

lemma DecodeInto_nonempty:
  "Versions vt \<noteq> [] \<Longrightarrow>
   DecodeInto n env vt encObj obj =
     (case getVersion vt (fst (read_version encObj)) of
        None \<Rightarrow> Err (VersionNotRegistered (fst (read_version encObj)))
      | Some (idx, v) \<Rightarrow>
          rbind (SafeDecodeField n env (VMap (TBasic KString) TIface obj) (Spec v)
                   (snd (read_version encObj)))
            (\<lambda>obj'. case obj' of
                      VMap kt vt' (Some m) \<Rightarrow>
                        Ok (set_map_index m (VStr ''_version'') (VNum KUint16 (be16 (Version v))))
                    | VMap kt vt' None \<Rightarrow> Panic RuntimePanic
                    | _ \<Rightarrow> Unmodelled))"
  by (cases "Versions vt"; cases "read_version encObj") (simp_all add: DecodeInto_def split: option.splits)

lemma DecodeInto_upgrader_free:
  "DecodeInto n env (vt\<lparr>Versions := map (\<lambda>v. v\<lparr>Upgrader := u v\<rparr>) (Versions vt)\<rparr>) encObj obj
     = DecodeInto n env vt encObj obj"
proof (cases "Versions vt = []")
  case True
  then show ?thesis by (simp add: DecodeInto_def)
next
  case False
  then have ne: "Versions (vt\<lparr>Versions := map (\<lambda>v. v\<lparr>Upgrader := u v\<rparr>) (Versions vt)\<rparr>) \<noteq> []"
    by simp
  show ?thesis
    unfolding DecodeInto_nonempty [OF False] DecodeInto_nonempty [OF ne] getVersion_upgrader_free
    by (cases "getVersion vt (fst (read_version encObj))") auto
qed

text \<open>
  C5, as amended. With an empty version list \<^verbatim>\<open>DecodeInto\<close> fails with "No versions
  registered". With a non-empty list it fails with "Version not registered" when
  the version named in the prefix is not in the list. On a descending list, when the
  prefix names the version at index \<open>i\<close>, the body is decoded against that
  version's spec into the caller's map, and on success the key \<^verbatim>\<open>_version\<close> is set
  to that version number as a \<^verbatim>\<open>uint16\<close>; so whenever the call succeeds the map
  binds \<^verbatim>\<open>_version\<close> to the number in the prefix. The result does not depend on the
  upgraders: replacing every upgrader of the type by any other leaves it unchanged.
\<close>

theorem DecodeInto_version:
  "(Versions vt = [] \<longrightarrow> DecodeInto n env vt encObj obj = Err (NoVersionsRegistered (Name vt)))
   \<and> (Versions vt \<noteq> [] \<and> fst (read_version encObj) \<notin> Version ` set (Versions vt) \<longrightarrow>
        DecodeInto n env vt encObj obj = Err (VersionNotRegistered (fst (read_version encObj))))
   \<and> (descending (Versions vt) \<and> i < length (Versions vt)
        \<and> read_version encObj = (Version (Versions vt ! i), buf) \<longrightarrow>
        DecodeInto n env vt encObj obj =
          rbind (SafeDecodeField n env (VMap (TBasic KString) TIface obj) (Spec (Versions vt ! i)) buf)
            (\<lambda>obj'. case obj' of
                      VMap kt vt' (Some m) \<Rightarrow>
                        Ok (set_map_index m (VStr ''_version'')
                              (VNum KUint16 (be16 (Version (Versions vt ! i)))))
                    | VMap kt vt' None \<Rightarrow> Panic RuntimePanic
                    | _ \<Rightarrow> Unmodelled)
        \<and> (\<forall>m. DecodeInto n env vt encObj obj = Ok m \<longrightarrow>
              map_of m (VStr ''_version'') = Some (VNum KUint16 (be16 (Version (Versions vt ! i))))))
   \<and> (\<forall>u. DecodeInto n env (vt\<lparr>Versions := map (\<lambda>v. v\<lparr>Upgrader := u v\<rparr>) (Versions vt)\<rparr>)
             encObj obj
           = DecodeInto n env vt encObj obj)"
proof (intro conjI impI allI)
  show "Versions vt = [] \<Longrightarrow> DecodeInto n env vt encObj obj = Err (NoVersionsRegistered (Name vt))"
    by (simp add: DecodeInto_def)
next
  assume a: "Versions vt \<noteq> [] \<and> fst (read_version encObj) \<notin> Version ` set (Versions vt)"
  then have "getVersion vt (fst (read_version encObj)) = None"
    by (simp add: getVersion_absent)
  with a show "DecodeInto n env vt encObj obj = Err (VersionNotRegistered (fst (read_version encObj)))"
    by (simp add: DecodeInto_nonempty)
next
  assume a: "descending (Versions vt) \<and> i < length (Versions vt)
        \<and> read_version encObj = (Version (Versions vt ! i), buf)"
  then have found: "getVersion vt (Version (Versions vt ! i)) = Some (i, Versions vt ! i)"
    by (simp add: getVersion_found)
  from a have "Versions vt \<noteq> []" by auto
  with a found show eq: "DecodeInto n env vt encObj obj =
          rbind (SafeDecodeField n env (VMap (TBasic KString) TIface obj) (Spec (Versions vt ! i)) buf)
            (\<lambda>obj'. case obj' of
                      VMap kt vt' (Some m) \<Rightarrow>
                        Ok (set_map_index m (VStr ''_version'')
                              (VNum KUint16 (be16 (Version (Versions vt ! i)))))
                    | VMap kt vt' None \<Rightarrow> Panic RuntimePanic
                    | _ \<Rightarrow> Unmodelled)"
    by (simp add: DecodeInto_nonempty)
  fix m
  assume "DecodeInto n env vt encObj obj = Ok m"
  then obtain x where
    "(case x of
        VMap kt vt' (Some m') \<Rightarrow>
          Ok (set_map_index m' (VStr ''_version'') (VNum KUint16 (be16 (Version (Versions vt ! i)))))
      | VMap kt vt' None \<Rightarrow> Panic RuntimePanic
      | _ \<Rightarrow> Unmodelled) = Ok m"
    unfolding eq by (auto simp: rbind_Ok_iff)
  then show "map_of m (VStr ''_version'') = Some (VNum KUint16 (be16 (Version (Versions vt ! i))))"
    by (cases x) (auto split: option.splits simp: map_of_set_map_index)
next
  fix u
  show "DecodeInto n env (vt\<lparr>Versions := map (\<lambda>v. v\<lparr>Upgrader := u v\<rparr>) (Versions vt)\<rparr>) encObj obj
           = DecodeInto n env vt encObj obj"
    by (rule DecodeInto_upgrader_free)
qed

text \<open>
  The claim as first stated, that the call fails with "Version not registered"
  whenever the version of the prefix is absent from the version list, fails on the
  type with no versions: the error is "No versions registered".
\<close>

theorem DecodeInto_no_versions_counterexample:
  "fst (read_version [0, 0]) \<notin> Version ` set (Versions test_type)
   \<and> DecodeInto (Suc (Suc (Suc 0))) test_env test_type [0, 0] (Some [])
       = Err (NoVersionsRegistered ''test'')
   \<and> DecodeInto (Suc (Suc (Suc 0))) test_env test_type [0, 0] (Some [])
       \<noteq> Err (VersionNotRegistered (fst (read_version [0, 0])))"
  by (simp add: test_type_def DecodeInto_def)

theorem DecodeInto_version_witness:
  "Versions test_type = []
   \<and> DecodeInto (Suc (Suc (Suc 0))) test_env test_type [0, 2] (Some [])
       = Err (NoVersionsRegistered ''test'')
   \<and> Versions test_type2 \<noteq> [] \<and> fst (read_version [0, 7]) \<notin> Version ` set (Versions test_type2)
   \<and> DecodeInto (Suc (Suc (Suc 0))) test_env test_type2 [0, 7] (Some [])
       = Err (VersionNotRegistered 7)
   \<and> descending (Versions test_type2) \<and> 0 < length (Versions test_type2)
   \<and> read_version [0, 2, 0, 32, 5, 66, 114, 101, 110, 100]
       = (Version (Versions test_type2 ! 0), [0, 32, 5, 66, 114, 101, 110, 100])
   \<and> DecodeInto (Suc (Suc (Suc 0))) test_env test_type2
        [0, 2, 0, 32, 5, 66, 114, 101, 110, 100] (Some [(VStr ''Old'', VBool True)])
       = Ok [(VStr ''Old'', VBool True), (VStr ''Age'', VNum KUint16 [0, 32]),
             (VStr ''Moniker'', VStr ''Brend''), (VStr ''_version'', VNum KUint16 [0, 2])]"
  using DecodeInto_version [of test_type "Suc (Suc (Suc 0))" test_env "[0, 2]" "Some []" 0 "[]"]
    DecodeInto_version [of test_type2 "Suc (Suc (Suc 0))" test_env "[0, 7]" "Some []" 0 "[]"]
    DecodeInto_version [of test_type2 "Suc (Suc (Suc 0))" test_env
      "[0, 2, 0, 32, 5, 66, 114, 101, 110, 100]" "Some [(VStr ''Old'', VBool True)]" 0
      "[0, 32, 5, 66, 114, 101, 110, 100]"]
  by (simp add: scenario_defs codec_defs descending_def)

end
